theory Spec2Isabelle
  imports Main "HOL-Library.Sublist"
begin

section \<open>Strings as the source uses them\<close>

text \<open>
  JavaScript strings are modelled as \<open>string\<close>. Only four string operations of the
  source matter: \<open>includes\<close>, \<open>startsWith\<close>, \<open>toLowerCase\<close> and
  \<open>Array.prototype.join\<close>. \<open>startsWith\<close> is \<^const>\<open>prefix\<close> with the arguments
  swapped.
\<close>

fun str_includes :: "string \<Rightarrow> string \<Rightarrow> bool" where
  "str_includes [] sub = (sub = [])"
| "str_includes (c # cs) sub = (prefix sub (c # cs) \<or> str_includes cs sub)"

definition startsWith :: "string \<Rightarrow> string \<Rightarrow> bool" where
  "startsWith s p = prefix p s"

text \<open>
  \<open>toLowerCase\<close> on the ASCII letters; every other byte is kept. The source only
  compares the lower-cased protocol with \<open>ssh\<close> and \<open>https\<close>, and no character
  outside ASCII lower-cases to one of the letters of these two words.
\<close>

definition lower_char :: "char \<Rightarrow> char" where
  "lower_char c =
     (case map_of (zip ''ABCDEFGHIJKLMNOPQRSTUVWXYZ'' ''abcdefghijklmnopqrstuvwxyz'') c of
        Some l \<Rightarrow> l
      | None \<Rightarrow> c)"

definition toLowerCase :: "string \<Rightarrow> string" where
  "toLowerCase s = map lower_char s"

fun join :: "string \<Rightarrow> string list \<Rightarrow> string" where
  "join sep [] = []"
| "join sep [x] = x"
| "join sep (x # y # ys) = x @ sep @ join sep (y # ys)"

definition sq :: string where
  "sq = [CHR 0x27]"

definition dq :: string where
  "dq = [CHR 0x22]"

section \<open>Errors, the parsed remote URL, the environment, the world\<close>

text \<open>
  A value thrown with \<open>Error(msg)\<close>. Interpolating it into a template string
  (\<open>${e}\<close>, or \<open>+ e\<close>) renders it as \<open>Error: msg\<close>, and as \<open>Error\<close> when
  the message is empty.
\<close>

datatype js_error = Error string

fun toString :: "js_error \<Rightarrow> string" where
  "toString (Error m) = (if m = [] then ''Error'' else ''Error: '' @ m)"

text \<open>
  \<open>errorStatusCode\<close> and \<open>errorBuilder.build\<close> are imported by
  \<open>gitutils.ts\<close> from modules that are not among the files at hand. Only the two
  codes that \<open>gitutils.ts\<close> uses are listed, and the value that \<open>build\<close> returns is
  represented by the arguments it was called with.
\<close>

datatype errorStatusCode = VALIDATION_ERR | GIT_OPS_ERR

datatype error_chain = ErrorChain errorStatusCode string "js_error option"

text \<open>
  What a function without a \<open>try\<close> of its own can throw: an \<open>Error\<close> that passes
  through it, or a value it built with \<open>build\<close>.
\<close>

datatype thrown = Js js_error | Chain error_chain

text \<open>The fields of the object returned by \<open>GitUrlParse\<close> that the source reads.\<close>

record git_url =
  protocol :: string
  resource :: string
  pathname :: string
  organization :: string
  owner :: string
  name :: string
  user :: string
  token :: string

text \<open>One call of \<open>exec(cmd, args, {cwd})\<close>; \<open>cwd = None\<close> when no option is passed.\<close>

record invocation =
  cmd :: string
  args :: "string list"
  cwd :: "string option"

datatype level = Debug | Info | Warn | Err

text \<open>
  What the code does to the outside, in the order it does it: the git commands it
  spawns and the lines it hands to the logger. \<open>trace\<close> is the list of the commands
  spawned so far.
\<close>

datatype event = Spawned invocation | Logged level string

type_synonym world = "event list"

fun trace :: "world \<Rightarrow> invocation list" where
  "trace [] = []"
| "trace (Spawned c # w) = c # trace w"
| "trace (Logged l m # w) = trace w"

text \<open>
  What the code consumes from outside: the external process behind \<open>exec\<close> (its
  answer may depend on everything spawned before: \<open>Inr\<close> the standard output,
  \<open>Inl\<close> the rendering of the rejection), the parser of the \<open>git-url-parse\<close>
  package, \<open>path.resolve\<close>, \<open>process.cwd()\<close> and \<open>process.env.APP_REPO_URL\<close>.
  The parser answers a string with a record of fields (\<open>Inr\<close>) or throws (\<open>Inl\<close>),
  as it does on a blank string; nothing else is assumed of it.
\<close>

record env =
  shell :: "invocation list \<Rightarrow> invocation \<Rightarrow> string + string"
  GitUrlParse :: "string \<Rightarrow> js_error + git_url"
  path_resolve :: "string \<Rightarrow> string"
  process_cwd :: string
  APP_REPO_URL :: "string option"

type_synonym 'a io = "world \<Rightarrow> (js_error + 'a) \<times> world"

definition git :: "string list \<Rightarrow> string option \<Rightarrow> invocation" where
  "git as d = \<lparr>cmd = ''git'', args = as, cwd = d\<rparr>"

definition exec :: "env \<Rightarrow> invocation \<Rightarrow> world \<Rightarrow> (string + string) \<times> world" where
  "exec e c w = (shell e (trace w) c, w @ [Spawned c])"

definition logger :: "level \<Rightarrow> string \<Rightarrow> world \<Rightarrow> world" where
  "logger l m w = w @ [Logged l m]"

section \<open>The remote URL resolver\<close>

text \<open>
  None of \<open>safeGitUrlForLogging\<close>, \<open>getRepositoryName\<close> and \<open>getRepositoryUrl\<close>
  has a \<open>try\<close>: what the parser throws passes through them.
\<close>

definition safeGitUrlForLogging :: "env \<Rightarrow> string \<Rightarrow> js_error + string" where
  "safeGitUrlForLogging e repoUrl =
     (case GitUrlParse e repoUrl of
        Inl err \<Rightarrow> Inl err
      | Inr parsedUrl \<Rightarrow>
          if user parsedUrl \<noteq> [] \<or> token parsedUrl \<noteq> []
          then Inr (protocol parsedUrl @ ''://'' @ resource parsedUrl @ pathname parsedUrl)
          else Inr repoUrl)"

definition getRepositoryName :: "env \<Rightarrow> string \<Rightarrow> world \<Rightarrow> (thrown + string) \<times> world" where
  "getRepositoryName e originUrl w =
     (case GitUrlParse e originUrl of
        Inl err \<Rightarrow> (Inl (Js err), w)
      | Inr p \<Rightarrow>
          if str_includes (resource p) ''dev.azure.com''
          then (Inr (name p), logger Debug ''azure devops repo found.'' w)
          else if str_includes (resource p) ''visualstudio.com''
          then (Inr (name p), logger Debug ''visualstudio.com repo found'' w)
          else if resource p = ''github.com''
          then (Inr (name p), logger Debug ''github repo found.'' w)
          else if \<not> startsWith (resource p) ''http''
          then (Inl (Chain (ErrorChain VALIDATION_ERR ''git-err-invalid-repository-url'' None)), w)
          else (Inl (Chain (ErrorChain VALIDATION_ERR ''git-err-validating-remote-git'' None)), w))"

definition invalid_protocol :: "string \<Rightarrow> string \<Rightarrow> js_error" where
  "invalid_protocol originUrl proto =
     Error (''Invalid protocol found in git remote '' @ sq @ originUrl @ sq
            @ ''. Expected one of '' @ sq @ ''ssh'' @ sq @ '' or '' @ sq @ ''https'' @ sq
            @ '' found '' @ sq @ proto @ sq)"

definition getRepositoryUrl :: "env \<Rightarrow> string \<Rightarrow> string io" where
  "getRepositoryUrl e originUrl w =
     (case GitUrlParse e originUrl of
        Inl err \<Rightarrow> (Inl err, w)
      | Inr p \<Rightarrow>
          if str_includes (resource p) ''dev.azure.com''
          then (Inr (''https://dev.azure.com/'' @ organization p @ ''/'' @ owner p
                     @ ''/_git/'' @ name p),
                logger Debug ''azure devops repo found.'' w)
          else if str_includes (resource p) ''visualstudio.com''
          then (let w' = logger Debug ''visualstudio.com repo found'' w;
                    proto = toLowerCase (protocol p) in
                if proto = ''ssh''
                then (Inr (''https://'' @ organization p @ ''.visualstudio.com/'' @ owner p
                           @ ''/_git/'' @ name p), w')
                else if proto = ''https''
                then (Inr (''https://'' @ resource p @ ''/'' @ owner p @ ''/_git/'' @ name p),
                      w')
                else (Inl (invalid_protocol originUrl (protocol p)), w'))
          else if resource p = ''github.com''
          then (Inr (''https://github.com/'' @ organization p @ ''/'' @ name p),
                logger Debug ''github repo found.'' w)
          else (Inl (Error
                  ''Could not determine origin repository, or it is not a supported type.''),
                w))"

text \<open>
  The body of the \<open>try\<close> block of \<open>getPullRequestLink\<close>, and the function itself,
  whose \<open>catch\<close> wraps whatever the body throws.
\<close>

definition pullRequestLink_body :: "env \<Rightarrow> string \<Rightarrow> string \<Rightarrow> string \<Rightarrow> string io" where
  "pullRequestLink_body e baseBranch newBranch originUrl w =
     (case GitUrlParse e originUrl of
        Inl err \<Rightarrow> (Inl err, w)
      | Inr p \<Rightarrow>
          (let query = ''/pullrequestcreate?sourceRef='' @ newBranch @ ''&targetRef=''
                       @ baseBranch in
           if str_includes (resource p) ''dev.azure.com''
           then (Inr (''https://dev.azure.com/'' @ organization p @ ''/'' @ owner p
                      @ ''/_git/'' @ name p @ query),
                 logger Debug ''azure devops repo found.'' w)
           else if str_includes (resource p) ''visualstudio.com''
           then (let w' = logger Debug ''visualstudio.com repo found'' w;
                     proto = toLowerCase (protocol p) in
                 if proto = ''ssh''
                 then (Inr (''https://'' @ organization p @ ''.visualstudio.com/'' @ owner p
                            @ ''/_git/'' @ name p @ query), w')
                 else if proto = ''https''
                 then (Inr (''https://'' @ resource p @ ''/'' @ owner p @ ''/_git/'' @ name p
                            @ query), w')
                 else (Inl (invalid_protocol originUrl (protocol p)), w'))
           else if resource p = ''github.com''
           then (Inr (''https://github.com/'' @ organization p @ ''/'' @ name p @ ''/compare/''
                      @ baseBranch @ ''...'' @ newBranch @ ''?expand=1''),
                 logger Debug ''github repo found.'' w)
           else (Inr (''Could not determine origin repository, or it is not a supported ''
                      @ ''provider. Please check for the newly pushed branch and open a PR ''
                      @ ''manually.''),
                 logger Err
                   ''Could not determine origin repository, or it is not a supported type.''
                   w)))"

definition getPullRequestLink :: "env \<Rightarrow> string \<Rightarrow> string \<Rightarrow> string \<Rightarrow> string io" where
  "getPullRequestLink e baseBranch newBranch originUrl w =
     (case pullRequestLink_body e baseBranch newBranch originUrl w of
        (Inl err, w') \<Rightarrow>
          (Inl (Error (dq @ ''Could not determine git provider, or it is not a supported type.''
                       @ dq @ '': '' @ toString err)), w')
      | (Inr link, w') \<Rightarrow> (Inr link, w'))"

section \<open>The git operations\<close>

text \<open>
  Each operation awaits \<open>exec\<close> inside a \<open>try\<close> block and throws a new \<open>Error\<close>
  from the \<open>catch\<close>. A parameter with a default value is an \<open>option\<close>.
\<close>

definition getCurrentBranch :: "env \<Rightarrow> string option \<Rightarrow> string io" where
  "getCurrentBranch e repoDir w =
     (let dir = (case repoDir of None \<Rightarrow> process_cwd e | Some d \<Rightarrow> d) in
      case exec e (git [''branch'', ''--show-current''] (Some (path_resolve e dir))) w of
        (Inr branch, w') \<Rightarrow> (Inr branch, w')
      | (Inl err, w') \<Rightarrow>
          (Inl (Error (''Unable to parse current branch from git client. Ensure '' @ sq
                       @ ''git branch --show-current'' @ sq @ '' returns a proper response'')),
           logger Err err w'))"

definition checkoutBranch :: "env \<Rightarrow> string \<Rightarrow> bool \<Rightarrow> unit io" where
  "checkoutBranch e branchName createNewBranch w =
     (case exec e (git (if createNewBranch then [''checkout'', ''-b'', branchName]
                        else [''checkout'', branchName]) None) w of
        (Inr _, w') \<Rightarrow> (Inr (), w')
      | (Inl err, w') \<Rightarrow>
          (Inl (Error (''Unable to checkout git branch '' @ branchName @ '': '' @ err)), w'))"

definition deleteBranch :: "env \<Rightarrow> string \<Rightarrow> unit io" where
  "deleteBranch e branchName w =
     (case exec e (git [''branch'', ''-D'', branchName] None) w of
        (Inr _, w') \<Rightarrow> (Inr (), w')
      | (Inl err, w') \<Rightarrow>
          (Inl (Error (''Unable to delete git branch '' @ branchName @ '': '' @ err)), w'))"

definition commit_failed :: "string \<Rightarrow> string list \<Rightarrow> string \<Rightarrow> js_error" where
  "commit_failed branchName pathspecs err =
     Error (''Unable to commit changes in '' @ join '','' pathspecs @ '' to git branch ''
            @ branchName @ '': '' @ err)"

definition commitPath :: "env \<Rightarrow> string \<Rightarrow> string list \<Rightarrow> unit io" where
  "commitPath e branchName pathspecs w =
     (case exec e (git (''add'' # pathspecs) None) w of
        (Inl err, w') \<Rightarrow> (Inl (commit_failed branchName pathspecs err), w')
      | (Inr _, w') \<Rightarrow>
          (case exec e (git [''commit'', ''-m'', ''Adding new service: '' @ branchName] None) w' of
             (Inl err, w'') \<Rightarrow> (Inl (commit_failed branchName pathspecs err), w'')
           | (Inr _, w'') \<Rightarrow> (Inr (), w'')))"

definition pushBranch :: "env \<Rightarrow> string \<Rightarrow> unit io" where
  "pushBranch e branchName w =
     (case exec e (git [''push'', ''-u'', ''origin'', branchName] None) w of
        (Inr _, w') \<Rightarrow> (Inr (), w')
      | (Inl err, w') \<Rightarrow>
          (Inl (Error (''Unable to push git branch '' @ branchName @ '': '' @ err)), w'))"

text \<open>
  In \<open>getOriginUrl\<close> and \<open>getAzdoOriginUrl\<close> the call of \<open>safeGitUrlForLogging\<close>
  is inside the \<open>try\<close>: when the parser throws there, the \<open>catch\<close> rethrows and
  nothing is logged.
\<close>

definition getOriginUrl :: "env \<Rightarrow> string option \<Rightarrow> string io" where
  "getOriginUrl e absRepositoryPath w =
     (let dir = (case absRepositoryPath of None \<Rightarrow> ''.'' | Some d \<Rightarrow> d) in
      case exec e (git [''config'', ''--get'', ''remote.origin.url''] (Some dir)) w of
        (Inl err, w') \<Rightarrow> (Inl (Error (''Unable to get git origin URL: '' @ err)), w')
      | (Inr originUrl, w') \<Rightarrow>
          (case safeGitUrlForLogging e originUrl of
             Inl err \<Rightarrow> (Inl (Error (''Unable to get git origin URL: '' @ toString err)), w')
           | Inr safeLoggingUrl \<Rightarrow>
               (Inr originUrl, logger Debug (''Got git origin url '' @ safeLoggingUrl) w')))"

text \<open>\<open>!process.env.APP_REPO_URL\<close> holds for an unset variable and for an empty one.\<close>

definition getAzdoOriginUrl :: "env \<Rightarrow> string io" where
  "getAzdoOriginUrl e w =
     (let rethrow = (\<lambda>err. (Inl (Error (''Unable to get azdo origin URL: '' @ toString err)), w));
          not_in_pipeline = Error ''Not running in a pipeline - no AzDO variables.'' in
      case APP_REPO_URL e of
        None \<Rightarrow> rethrow not_in_pipeline
      | Some originUrl \<Rightarrow>
          if originUrl = [] then rethrow not_in_pipeline
          else (case safeGitUrlForLogging e originUrl of
                  Inl err \<Rightarrow> rethrow err
                | Inr safeLoggingUrl \<Rightarrow>
                    (Inr originUrl,
                     logger Debug (''Got azdo git origin url '' @ safeLoggingUrl) w)))"

definition tryGetGitOrigin :: "env \<Rightarrow> string option \<Rightarrow> string io" where
  "tryGetGitOrigin e absRepoPath w =
     (case getAzdoOriginUrl e w of
        (Inr originUrl, w') \<Rightarrow> (Inr originUrl, w')
      | (Inl _, w') \<Rightarrow>
          getOriginUrl e absRepoPath
            (logger Warn (''Could not get Git Origin for Azure DevOps - are you running '' @ sq
                          @ ''spk'' @ sq @ '' _not_ in a pipeline?'') w'))"

section \<open>The orchestrator\<close>

text \<open>
  \<open>andThen m f\<close> is \<open>const x = await m; f x\<close>: a rejection of \<open>m\<close> skips \<open>f\<close>.
  \<open>catchThrow m h\<close> is \<open>m.catch((e) => { throw h(e) })\<close>.
\<close>

definition andThen :: "'a io \<Rightarrow> ('a \<Rightarrow> 'b io) \<Rightarrow> 'b io" where
  "andThen m f w = (case m w of (Inl err, w') \<Rightarrow> (Inl err, w') | (Inr x, w') \<Rightarrow> f x w')"

definition catchThrow :: "'a io \<Rightarrow> (js_error \<Rightarrow> js_error) \<Rightarrow> 'a io" where
  "catchThrow m h w = (case m w of (Inl err, w') \<Rightarrow> (Inl (h err), w') | (Inr x, w') \<Rightarrow> (Inr x, w'))"

definition steps :: "env \<Rightarrow> string \<Rightarrow> string list \<Rightarrow> unit io" where
  "steps e newBranchName pathspecs =
     andThen (catchThrow (getCurrentBranch e None)
       (\<lambda>err. Error (''Cannot fetch current branch. Changes will have to be manually committed. ''
                     @ toString err)))
     (\<lambda>currentBranch.
     andThen (catchThrow (checkoutBranch e newBranchName True)
       (\<lambda>err. Error (''Cannot create and checkout new branch '' @ newBranchName
                     @ ''. Changes will have to be manually committed. '' @ toString err)))
     (\<lambda>_.
     andThen (catchThrow (commitPath e newBranchName pathspecs)
       (\<lambda>err. Error (''Cannot commit changes in '' @ join '', '' pathspecs @ '' to branch ''
                     @ newBranchName @ ''. Changes will have to be manually committed. ''
                     @ toString err)))
     (\<lambda>_.
     andThen (catchThrow (pushBranch e newBranchName)
       (\<lambda>err. Error (''Cannot push branch '' @ newBranchName
                     @ ''. Changes will have to be manually committed. '' @ toString err)))
     (\<lambda>_.
     andThen (getOriginUrl e None)
     (\<lambda>originUrl.
     andThen (catchThrow (getPullRequestLink e currentBranch newBranchName originUrl)
       (\<lambda>err. Error (''Could not create link for Pull Request. It will need to be done manually. ''
                     @ toString err)))
     (\<lambda>pullRequestLink.
     andThen (\<lambda>w. (Inr (), logger Info (''Link to create PR: '' @ pullRequestLink) w))
     (\<lambda>_.
     andThen (catchThrow (checkoutBranch e currentBranch False)
       (\<lambda>err. Error (''Cannot checkout original branch '' @ currentBranch
                     @ ''. Clean up will need to be done manually. '' @ toString err)))
     (\<lambda>_.
     catchThrow (deleteBranch e newBranchName)
       (\<lambda>err. Error (''Cannot delete new branch '' @ newBranchName
                     @ ''. Cleanup will need to be done manually. '' @ toString err))))))))))"

definition checkoutCommitPushCreatePRLink ::
  "env \<Rightarrow> string \<Rightarrow> string list \<Rightarrow> world \<Rightarrow> (error_chain + unit) \<times> world" where
  "checkoutCommitPushCreatePRLink e newBranchName pathspecs w =
     (case steps e newBranchName pathspecs w of
        (Inl err, w') \<Rightarrow>
          (Inl (ErrorChain GIT_OPS_ERR ''git-checkout-commit-push-create-PR-link'' (Some err)), w')
      | (Inr u, w') \<Rightarrow> (Inr u, w'))"

section \<open>Vocabulary of the statements\<close>

text \<open>The fixed lines that the three resolver operations hand to the logger.\<close>

definition resolver_lines :: "event list" where
  "resolver_lines =
     [Logged Debug ''azure devops repo found.'', Logged Debug ''visualstudio.com repo found'',
      Logged Debug ''github repo found.'',
      Logged Err ''Could not determine origin repository, or it is not a supported type.'']"

text \<open>
  The git commands of one run of the orchestrator, in the order the source awaits them;
  \<open>currentBranch\<close> is what \<open>git branch --show-current\<close> printed.
\<close>

definition plan :: "env \<Rightarrow> string \<Rightarrow> string \<Rightarrow> string list \<Rightarrow> invocation list" where
  "plan e currentBranch newBranchName pathspecs =
     [git [''branch'', ''--show-current''] (Some (path_resolve e (process_cwd e))),
      git [''checkout'', ''-b'', newBranchName] None,
      git (''add'' # pathspecs) None,
      git [''commit'', ''-m'', ''Adding new service: '' @ newBranchName] None,
      git [''push'', ''-u'', ''origin'', newBranchName] None,
      git [''config'', ''--get'', ''remote.origin.url''] (Some ''.''),
      git [''checkout'', currentBranch] None,
      git [''branch'', ''-D'', newBranchName] None]"

text \<open>
  \<open>accepts e t cmds outs\<close>: spawned one after the other once \<open>t\<close> has been spawned,
  the commands \<open>cmds\<close> are all accepted, and they print \<open>outs\<close>.
\<close>

fun accepts :: "env \<Rightarrow> invocation list \<Rightarrow> invocation list \<Rightarrow> string list \<Rightarrow> bool" where
  "accepts e t [] [] = True"
| "accepts e t (c # cs) (out # outs) = (shell e t c = Inr out \<and> accepts e (t @ [c]) cs outs)"
| "accepts e t [] (out # outs) = False"
| "accepts e t (c # cs) [] = False"

text \<open>
  What \<open>getPullRequestLink\<close> returns or throws does not depend on the world; it logs
  one line, chosen by the parsed resource alone, and none when the parser throws.
\<close>

definition link_of :: "env \<Rightarrow> string \<Rightarrow> string \<Rightarrow> string \<Rightarrow> js_error + string" where
  "link_of e baseBranch newBranch originUrl =
     fst (getPullRequestLink e baseBranch newBranch originUrl [])"

definition link_lines :: "env \<Rightarrow> string \<Rightarrow> event list" where
  "link_lines e originUrl =
     (case GitUrlParse e originUrl of
        Inl err \<Rightarrow> []
      | Inr p \<Rightarrow>
          if str_includes (resource p) ''dev.azure.com''
          then [Logged Debug ''azure devops repo found.'']
          else if str_includes (resource p) ''visualstudio.com''
          then [Logged Debug ''visualstudio.com repo found'']
          else if resource p = ''github.com'' then [Logged Debug ''github repo found.'']
          else [Logged Err
                  ''Could not determine origin repository, or it is not a supported type.''])"

text \<open>What the \<open>catch\<close> of the orchestrator throws for the error \<open>err\<close> it caught.\<close>

definition rethrown :: "js_error \<Rightarrow> world \<Rightarrow> (error_chain + unit) \<times> world" where
  "rethrown err w =
     (Inl (ErrorChain GIT_OPS_ERR ''git-checkout-commit-push-create-PR-link'' (Some err)), w)"

section \<open>The name validators\<close>

definition lower_letters :: string where
  "lower_letters = ''abcdefghijklmnopqrstuvwxyz''"

definition upper_letters :: string where
  "upper_letters = ''ABCDEFGHIJKLMNOPQRSTUVWXYZ''"

definition digits :: string where
  "digits = ''0123456789''"

text \<open>
  Modelled from the spec: \<open>validateStorageName\<close> of
  \<open>src/commands/deployment/onboard.ts\<close>, a file that is not at hand; only its tests in
  \<open>onboard.test.ts\<close> are. The rule is the one the specification words: a name of at
  most 24 characters, lower-case letters and digits only. Neither the specification nor
  the tests give a least length, so none is modelled.
\<close>

definition validateStorageName :: "string \<Rightarrow> bool" where
  "validateStorageName nm =
     (length nm \<le> 24 \<and> list_all (\<lambda>c. c \<in> set (lower_letters @ digits)) nm)"

text \<open>
  Modelled from the spec: \<open>validateTableName\<close> of
  \<open>src/commands/deployment/onboard.ts\<close>, a file that is not at hand; only its tests in
  \<open>onboard.test.ts\<close> are. The rule is the one the specification words: a name of at
  most 63 characters, letters and digits only, the first one a letter. Neither the
  specification nor the tests give a least length, so none is modelled beyond the first
  letter.
\<close>

definition validateTableName :: "string \<Rightarrow> bool" where
  "validateTableName nm =
     (case nm of
        [] \<Rightarrow> False
      | c # cs \<Rightarrow>
          c \<in> set (lower_letters @ upper_letters)
          \<and> length cs \<le> 62
          \<and> list_all (\<lambda>c. c \<in> set (lower_letters @ upper_letters @ digits)) cs)"

section \<open>Sample environments\<close>

text \<open>
  Concrete inputs for the closed theorems below. \<open>sample_parse\<close> lists, for a few
  remote URLs, the fields \<open>GitUrlParse\<close> is taken to answer; it throws on a blank
  string and answers every other string as a local path. In
  \<open>sample_shell origin bad\<close> every command whose arguments begin with \<open>bad\<close> is
  rejected (none when \<open>bad\<close> is empty) and every other one succeeds:
  \<open>branch --show-current\<close> prints \<open>master\<close> and
  \<open>config --get remote.origin.url\<close> prints \<open>origin\<close>.
\<close>

definition sample_parse :: "string \<Rightarrow> js_error + git_url" where
  "sample_parse u =
     (if u = [] \<or> u = '' '' then Inl (Error ''Invalid url.'')
      else if u = ''https://dev.azure.com/contoso/shop/_git/cart''
      then Inr \<lparr>protocol = ''https'', resource = ''dev.azure.com'',
            pathname = ''/contoso/shop/_git/cart'', organization = ''contoso'',
            owner = ''shop'', name = ''cart'', user = [], token = []\<rparr>
      else if u = ''https://pat123@dev.azure.com/contoso/shop/_git/cart''
      then Inr \<lparr>protocol = ''https'', resource = ''dev.azure.com'',
            pathname = ''/contoso/shop/_git/cart'', organization = ''contoso'',
            owner = ''shop'', name = ''cart'', user = ''pat123'', token = []\<rparr>
      else if u = ''https://contoso.visualstudio.com/shop/_git/cart''
      then Inr \<lparr>protocol = ''https'', resource = ''contoso.visualstudio.com'',
            pathname = ''/shop/_git/cart'', organization = ''contoso'',
            owner = ''shop'', name = ''cart'', user = [], token = []\<rparr>
      else if u = ''HTTPS://contoso.visualstudio.com/shop/_git/cart''
      then Inr \<lparr>protocol = ''HTTPS'', resource = ''contoso.visualstudio.com'',
            pathname = ''/shop/_git/cart'', organization = ''contoso'',
            owner = ''shop'', name = ''cart'', user = [], token = []\<rparr>
      else if u = ''contoso@vs-ssh.visualstudio.com:v3/contoso/shop/cart''
      then Inr \<lparr>protocol = ''ssh'', resource = ''vs-ssh.visualstudio.com'',
            pathname = ''/v3/contoso/shop/cart'', organization = ''contoso'',
            owner = ''shop'', name = ''cart'', user = ''contoso'', token = []\<rparr>
      else if u = ''git://contoso.visualstudio.com/shop/_git/cart''
      then Inr \<lparr>protocol = ''git'', resource = ''contoso.visualstudio.com'',
            pathname = ''/shop/_git/cart'', organization = ''contoso'',
            owner = ''shop'', name = ''cart'', user = [], token = []\<rparr>
      else if u = ''ssh://git@dev.azure.com.visualstudio.com/shop/_git/cart''
      then Inr \<lparr>protocol = ''ssh'', resource = ''dev.azure.com.visualstudio.com'',
            pathname = ''/shop/_git/cart'', organization = ''contoso'',
            owner = ''shop'', name = ''cart'', user = ''git'', token = []\<rparr>
      else if u = ''git@github.com:contoso/cart.git''
      then Inr \<lparr>protocol = ''ssh'', resource = ''github.com'',
            pathname = ''/contoso/cart.git'', organization = ''contoso'',
            owner = ''contoso'', name = ''cart'', user = ''git'', token = []\<rparr>
      else if u = ''https://gitlab.com/contoso/cart.git''
      then Inr \<lparr>protocol = ''https'', resource = ''gitlab.com'',
            pathname = ''/contoso/cart.git'', organization = ''contoso'',
            owner = ''contoso'', name = ''cart'', user = [], token = []\<rparr>
      else Inr \<lparr>protocol = ''file'', resource = [], pathname = u, organization = [],
            owner = [], name = [], user = [], token = []\<rparr>)"

definition sample_shell ::
  "string \<Rightarrow> string list \<Rightarrow> invocation list \<Rightarrow> invocation \<Rightarrow> string + string" where
  "sample_shell origin bad history c =
     (if bad \<noteq> [] \<and> prefix bad (args c) then Inl (''fatal: git '' @ join '' '' bad @ '' failed'')
      else if args c = [''branch'', ''--show-current''] then Inr ''master''
      else if prefix [''config''] (args c) then Inr origin
      else Inr [])"

definition sample_env :: "string \<Rightarrow> string list \<Rightarrow> string option \<Rightarrow> env" where
  "sample_env origin bad appRepoUrl =
     \<lparr>shell = sample_shell origin bad, GitUrlParse = sample_parse,
      path_resolve = (\<lambda>dir. dir), process_cwd = ''/home/dev/repo'',
      APP_REPO_URL = appRepoUrl\<rparr>"

definition fresh :: world where
  "fresh = []"

section \<open>Facts shared by the proofs\<close>

lemma sample_env_sel:
  "shell (sample_env origin bad a) = sample_shell origin bad"
  "GitUrlParse (sample_env origin bad a) = sample_parse"
  "path_resolve (sample_env origin bad a) d = d"
  "process_cwd (sample_env origin bad a) = ''/home/dev/repo''"
  "APP_REPO_URL (sample_env origin bad a) = a"
  by (simp_all add: sample_env_def)

lemma toLowerCase_samples:
  "toLowerCase ''ssh'' = ''ssh''"
  "toLowerCase ''https'' = ''https''"
  "toLowerCase ''HTTPS'' = ''https''"
  "toLowerCase ''git'' = ''git''"
  by (simp_all add: toLowerCase_def lower_char_def)

lemma trace_append [simp]: "trace (w @ v) = trace w @ trace v"
  by (induction w rule: trace.induct) simp_all

section \<open>The resolver: provider templates\<close>

text \<open>
  C4. Whenever the parsed resource contains \<open>dev.azure.com\<close>, \<open>getRepositoryUrl\<close>
  returns exactly \<open>https://dev.azure.com/{organization}/{owner}/_git/{name}\<close>.
\<close>

theorem azure_devops_repository_url:
  assumes "GitUrlParse e originUrl = Inr p"
    and "str_includes (resource p) ''dev.azure.com''"
  shows "fst (getRepositoryUrl e originUrl w) =
           Inr (''https://dev.azure.com/'' @ organization p @ ''/'' @ owner p @ ''/_git/''
                @ name p)"
  using assms by (simp add: getRepositoryUrl_def)

theorem azure_devops_repository_url_witness:
  "GitUrlParse (sample_env [] [] None) ''https://dev.azure.com/contoso/shop/_git/cart''
     = Inr \<lparr>protocol = ''https'', resource = ''dev.azure.com'',
            pathname = ''/contoso/shop/_git/cart'', organization = ''contoso'',
            owner = ''shop'', name = ''cart'', user = [], token = []\<rparr>
   \<and> str_includes ''dev.azure.com'' ''dev.azure.com''
   \<and> fst (getRepositoryUrl (sample_env [] [] None)
          ''https://dev.azure.com/contoso/shop/_git/cart'' fresh) =
       Inr ''https://dev.azure.com/contoso/shop/_git/cart''"
proof -
  let ?p = "\<lparr>protocol = ''https'', resource = ''dev.azure.com'',
            pathname = ''/contoso/shop/_git/cart'', organization = ''contoso'',
            owner = ''shop'', name = ''cart'', user = [], token = []\<rparr>"
  have h: "GitUrlParse (sample_env [] [] None) ''https://dev.azure.com/contoso/shop/_git/cart''
             = Inr ?p"
    by (simp add: sample_env_sel sample_parse_def)
  have i: "str_includes (resource ?p) ''dev.azure.com''"
    by simp
  from azure_devops_repository_url [OF h i, of fresh] h i show ?thesis
    by simp
qed

text \<open>
  C5. Whenever the parsed resource is \<open>github.com\<close>, \<open>getRepositoryUrl\<close> returns
  exactly \<open>https://github.com/{organization}/{name}\<close>.
\<close>

theorem github_repository_url:
  assumes "GitUrlParse e originUrl = Inr p"
    and "resource p = ''github.com''"
  shows "fst (getRepositoryUrl e originUrl w) =
           Inr (''https://github.com/'' @ organization p @ ''/'' @ name p)"
  using assms by (simp add: getRepositoryUrl_def)

theorem github_repository_url_witness:
  "GitUrlParse (sample_env [] [] None) ''git@github.com:contoso/cart.git''
     = Inr \<lparr>protocol = ''ssh'', resource = ''github.com'',
            pathname = ''/contoso/cart.git'', organization = ''contoso'',
            owner = ''contoso'', name = ''cart'', user = ''git'', token = []\<rparr>
   \<and> fst (getRepositoryUrl (sample_env [] [] None) ''git@github.com:contoso/cart.git'' fresh) =
       Inr ''https://github.com/contoso/cart''"
proof -
  let ?p = "\<lparr>protocol = ''ssh'', resource = ''github.com'',
            pathname = ''/contoso/cart.git'', organization = ''contoso'',
            owner = ''contoso'', name = ''cart'', user = ''git'', token = []\<rparr>"
  have h: "GitUrlParse (sample_env [] [] None) ''git@github.com:contoso/cart.git'' = Inr ?p"
    by (simp add: sample_env_sel sample_parse_def)
  have i: "resource ?p = ''github.com''"
    by simp
  from github_repository_url [OF h i, of fresh] h show ?thesis
    by simp
qed

text \<open>
  C10. For a supported provider (resource containing \<open>dev.azure.com\<close>, or containing
  \<open>visualstudio.com\<close> with protocol \<open>ssh\<close> or \<open>https\<close>, or equal to
  \<open>github.com\<close>) both \<open>getRepositoryUrl\<close> and \<open>getPullRequestLink\<close> return, and
  what they return begins with \<open>https://\<close>, also for an ssh remote.
\<close>

theorem supported_links_are_https:
  assumes "GitUrlParse e originUrl = Inr p"
    and "str_includes (resource p) ''dev.azure.com''
         \<or> (str_includes (resource p) ''visualstudio.com''
              \<and> (protocol p = ''ssh'' \<or> protocol p = ''https''))
         \<or> resource p = ''github.com''"
  shows "(\<exists>r. fst (getRepositoryUrl e originUrl w) = Inr r \<and> prefix ''https://'' r)
       \<and> (\<exists>l. fst (getPullRequestLink e baseBranch newBranch originUrl w) = Inr l
                \<and> prefix ''https://'' l)"
proof -
  have repo: "\<exists>r. fst (getRepositoryUrl e originUrl w) = Inr r \<and> prefix ''https://'' r"
    using assms by (auto simp add: getRepositoryUrl_def Let_def toLowerCase_samples)
  have link: "\<exists>l. fst (pullRequestLink_body e baseBranch newBranch originUrl w) = Inr l
                 \<and> prefix ''https://'' l"
    using assms by (auto simp add: pullRequestLink_body_def Let_def toLowerCase_samples)
  then obtain l w' where "pullRequestLink_body e baseBranch newBranch originUrl w = (Inr l, w')"
    and "prefix ''https://'' l"
    by (metis fst_conv surj_pair)
  then have "\<exists>l. fst (getPullRequestLink e baseBranch newBranch originUrl w) = Inr l
                \<and> prefix ''https://'' l"
    by (simp add: getPullRequestLink_def)
  with repo show ?thesis by simp
qed

theorem supported_links_are_https_witness:
  "GitUrlParse (sample_env [] [] None) ''contoso@vs-ssh.visualstudio.com:v3/contoso/shop/cart''
     = Inr \<lparr>protocol = ''ssh'', resource = ''vs-ssh.visualstudio.com'',
            pathname = ''/v3/contoso/shop/cart'', organization = ''contoso'',
            owner = ''shop'', name = ''cart'', user = ''contoso'', token = []\<rparr>
   \<and> str_includes ''vs-ssh.visualstudio.com'' ''visualstudio.com''
   \<and> fst (getRepositoryUrl (sample_env [] [] None)
        ''contoso@vs-ssh.visualstudio.com:v3/contoso/shop/cart'' fresh)
       = Inr ''https://contoso.visualstudio.com/shop/_git/cart''
   \<and> prefix ''https://'' ''https://contoso.visualstudio.com/shop/_git/cart''
   \<and> (\<exists>l. fst (getPullRequestLink (sample_env [] [] None) ''master'' ''feature''
               ''contoso@vs-ssh.visualstudio.com:v3/contoso/shop/cart'' fresh) = Inr l
            \<and> prefix ''https://'' l)"
proof -
  let ?u = "''contoso@vs-ssh.visualstudio.com:v3/contoso/shop/cart''"
  let ?p = "\<lparr>protocol = ''ssh'', resource = ''vs-ssh.visualstudio.com'',
            pathname = ''/v3/contoso/shop/cart'', organization = ''contoso'',
            owner = ''shop'', name = ''cart'', user = ''contoso'', token = []\<rparr>"
  have h: "GitUrlParse (sample_env [] [] None) ?u = Inr ?p"
    by (simp add: sample_env_sel sample_parse_def)
  have i: "str_includes ''vs-ssh.visualstudio.com'' ''visualstudio.com''"
    by simp
  have hyp: "str_includes (resource ?p) ''dev.azure.com''
         \<or> (str_includes (resource ?p) ''visualstudio.com''
              \<and> (protocol ?p = ''ssh'' \<or> protocol ?p = ''https''))
         \<or> resource ?p = ''github.com''"
    by simp
  have r: "fst (getRepositoryUrl (sample_env [] [] None) ?u fresh)
             = Inr ''https://contoso.visualstudio.com/shop/_git/cart''"
    by (simp add: getRepositoryUrl_def Let_def sample_env_sel sample_parse_def toLowerCase_samples)
  from supported_links_are_https [OF h hyp, of fresh "''master''" "''feature''"] h i r
  show ?thesis by simp
qed

section \<open>The resolver: Visual Studio Online and unsupported hosts\<close>

lemma visualstudio_branch:
  assumes "GitUrlParse e originUrl = Inr p"
    and "str_includes (resource p) ''visualstudio.com''"
    and "\<not> str_includes (resource p) ''dev.azure.com''"
  shows "getRepositoryUrl e originUrl w =
           (if toLowerCase (protocol p) = ''ssh''
            then Inr (''https://'' @ organization p @ ''.visualstudio.com/'' @ owner p
                      @ ''/_git/'' @ name p)
            else if toLowerCase (protocol p) = ''https''
            then Inr (''https://'' @ resource p @ ''/'' @ owner p @ ''/_git/'' @ name p)
            else Inl (invalid_protocol originUrl (protocol p)),
            w @ [Logged Debug ''visualstudio.com repo found''])"
    and "getPullRequestLink e baseBranch newBranch originUrl w =
           (if toLowerCase (protocol p) = ''ssh''
            then Inr (''https://'' @ organization p @ ''.visualstudio.com/'' @ owner p
                      @ ''/_git/'' @ name p
                      @ ''/pullrequestcreate?sourceRef='' @ newBranch
                      @ ''&targetRef='' @ baseBranch)
            else if toLowerCase (protocol p) = ''https''
            then Inr (''https://'' @ resource p @ ''/'' @ owner p @ ''/_git/'' @ name p
                      @ ''/pullrequestcreate?sourceRef='' @ newBranch
                      @ ''&targetRef='' @ baseBranch)
            else Inl (Error (dq @ ''Could not determine git provider, or it is not a supported type.''
                             @ dq @ '': ''
                             @ toString (invalid_protocol originUrl (protocol p)))),
            w @ [Logged Debug ''visualstudio.com repo found''])"
  using assms
  by (simp_all add: getRepositoryUrl_def getPullRequestLink_def pullRequestLink_body_def
      logger_def Let_def)

text \<open>
  C3, as stated, fails twice. A parsed protocol \<open>HTTPS\<close> is neither \<open>ssh\<close> nor
  \<open>https\<close>, and nothing is thrown: the source compares \<open>protocol.toLowerCase()\<close>.
  A resource that contains \<open>visualstudio.com\<close> and \<open>dev.azure.com\<close> is answered
  by the Azure DevOps branch, which is tested first.
\<close>

theorem visualstudio_protocol_counterexample:
  "sample_parse ''HTTPS://contoso.visualstudio.com/shop/_git/cart''
     = Inr \<lparr>protocol = ''HTTPS'', resource = ''contoso.visualstudio.com'',
            pathname = ''/shop/_git/cart'', organization = ''contoso'',
            owner = ''shop'', name = ''cart'', user = [], token = []\<rparr>
   \<and> ''HTTPS'' \<noteq> ''ssh'' \<and> ''HTTPS'' \<noteq> ''https''
   \<and> str_includes ''contoso.visualstudio.com'' ''visualstudio.com''
   \<and> fst (getRepositoryUrl (sample_env [] [] None)
            ''HTTPS://contoso.visualstudio.com/shop/_git/cart'' fresh)
       = Inr ''https://contoso.visualstudio.com/shop/_git/cart''
   \<and> sample_parse ''ssh://git@dev.azure.com.visualstudio.com/shop/_git/cart''
     = Inr \<lparr>protocol = ''ssh'', resource = ''dev.azure.com.visualstudio.com'',
            pathname = ''/shop/_git/cart'', organization = ''contoso'',
            owner = ''shop'', name = ''cart'', user = ''git'', token = []\<rparr>
   \<and> str_includes ''dev.azure.com.visualstudio.com'' ''visualstudio.com''
   \<and> fst (getRepositoryUrl (sample_env [] [] None)
            ''ssh://git@dev.azure.com.visualstudio.com/shop/_git/cart'' fresh)
       = Inr ''https://dev.azure.com/contoso/shop/_git/cart''"
  by (simp add: getRepositoryUrl_def Let_def sample_env_sel sample_parse_def toLowerCase_samples)

text \<open>
  C3, amended. For a resource that contains \<open>visualstudio.com\<close> and not
  \<open>dev.azure.com\<close>: when the lower-cased protocol is \<open>ssh\<close>, \<open>getRepositoryUrl\<close>
  and \<open>getPullRequestLink\<close> build on \<open>https://{organization}.visualstudio.com/\<close>;
  when it is \<open>https\<close>, on \<open>https://{resource}/\<close>; for every other protocol
  both throw.
\<close>

theorem visualstudio_links:
  assumes "GitUrlParse e originUrl = Inr p"
    and "str_includes (resource p) ''visualstudio.com''"
    and "\<not> str_includes (resource p) ''dev.azure.com''"
  shows "(toLowerCase (protocol p) = ''ssh'' \<longrightarrow>
            fst (getRepositoryUrl e originUrl w) =
              Inr (''https://'' @ organization p @ ''.visualstudio.com/'' @ owner p
                   @ ''/_git/'' @ name p)
          \<and> fst (getPullRequestLink e baseBranch newBranch originUrl w) =
              Inr (''https://'' @ organization p @ ''.visualstudio.com/'' @ owner p
                   @ ''/_git/'' @ name p
                   @ ''/pullrequestcreate?sourceRef='' @ newBranch
                   @ ''&targetRef='' @ baseBranch))
       \<and> (toLowerCase (protocol p) = ''https'' \<longrightarrow>
            fst (getRepositoryUrl e originUrl w) =
              Inr (''https://'' @ resource p @ ''/'' @ owner p @ ''/_git/'' @ name p)
          \<and> fst (getPullRequestLink e baseBranch newBranch originUrl w) =
              Inr (''https://'' @ resource p @ ''/'' @ owner p @ ''/_git/'' @ name p
                   @ ''/pullrequestcreate?sourceRef='' @ newBranch
                   @ ''&targetRef='' @ baseBranch))
       \<and> (toLowerCase (protocol p) \<noteq> ''ssh'' \<and> toLowerCase (protocol p) \<noteq> ''https'' \<longrightarrow>
            fst (getRepositoryUrl e originUrl w) =
              Inl (invalid_protocol originUrl (protocol p))
          \<and> fst (getPullRequestLink e baseBranch newBranch originUrl w) =
              Inl (Error (dq @ ''Could not determine git provider, or it is not a supported type.''
                          @ dq @ '': ''
                          @ toString (invalid_protocol originUrl (protocol p)))))"
  by (simp add: visualstudio_branch [OF assms])

theorem visualstudio_links_witness:
  "GitUrlParse (sample_env [] [] None) ''contoso@vs-ssh.visualstudio.com:v3/contoso/shop/cart''
     = Inr \<lparr>protocol = ''ssh'', resource = ''vs-ssh.visualstudio.com'',
            pathname = ''/v3/contoso/shop/cart'', organization = ''contoso'',
            owner = ''shop'', name = ''cart'', user = ''contoso'', token = []\<rparr>
   \<and> toLowerCase ''ssh'' = ''ssh''
   \<and> fst (getRepositoryUrl (sample_env [] [] None)
        ''contoso@vs-ssh.visualstudio.com:v3/contoso/shop/cart'' fresh)
       = Inr ''https://contoso.visualstudio.com/shop/_git/cart''
   \<and> fst (getPullRequestLink (sample_env [] [] None) ''master'' ''feature''
        ''contoso@vs-ssh.visualstudio.com:v3/contoso/shop/cart'' fresh)
       = Inr (''https://contoso.visualstudio.com/shop/_git/cart''
              @ ''/pullrequestcreate?sourceRef=feature&targetRef=master'')
   \<and> GitUrlParse (sample_env [] [] None) ''https://contoso.visualstudio.com/shop/_git/cart''
     = Inr \<lparr>protocol = ''https'', resource = ''contoso.visualstudio.com'',
            pathname = ''/shop/_git/cart'', organization = ''contoso'',
            owner = ''shop'', name = ''cart'', user = [], token = []\<rparr>
   \<and> toLowerCase ''https'' = ''https''
   \<and> fst (getRepositoryUrl (sample_env [] [] None)
        ''https://contoso.visualstudio.com/shop/_git/cart'' fresh)
       = Inr ''https://contoso.visualstudio.com/shop/_git/cart''
   \<and> fst (getPullRequestLink (sample_env [] [] None) ''master'' ''feature''
        ''https://contoso.visualstudio.com/shop/_git/cart'' fresh)
       = Inr (''https://contoso.visualstudio.com/shop/_git/cart''
              @ ''/pullrequestcreate?sourceRef=feature&targetRef=master'')
   \<and> GitUrlParse (sample_env [] [] None) ''git://contoso.visualstudio.com/shop/_git/cart''
     = Inr \<lparr>protocol = ''git'', resource = ''contoso.visualstudio.com'',
            pathname = ''/shop/_git/cart'', organization = ''contoso'',
            owner = ''shop'', name = ''cart'', user = [], token = []\<rparr>
   \<and> toLowerCase ''git'' = ''git''
   \<and> fst (getRepositoryUrl (sample_env [] [] None)
        ''git://contoso.visualstudio.com/shop/_git/cart'' fresh)
       = Inl (invalid_protocol ''git://contoso.visualstudio.com/shop/_git/cart'' ''git'')
   \<and> fst (getPullRequestLink (sample_env [] [] None) ''master'' ''feature''
        ''git://contoso.visualstudio.com/shop/_git/cart'' fresh)
       = Inl (Error (dq @ ''Could not determine git provider, or it is not a supported type.''
                     @ dq @ '': ''
                     @ toString (invalid_protocol
                                   ''git://contoso.visualstudio.com/shop/_git/cart'' ''git'')))"
proof -
  let ?e = "sample_env [] [] None"
  let ?s = "''contoso@vs-ssh.visualstudio.com:v3/contoso/shop/cart''"
  let ?h = "''https://contoso.visualstudio.com/shop/_git/cart''"
  let ?g = "''git://contoso.visualstudio.com/shop/_git/cart''"
  let ?ps = "\<lparr>protocol = ''ssh'', resource = ''vs-ssh.visualstudio.com'',
            pathname = ''/v3/contoso/shop/cart'', organization = ''contoso'',
            owner = ''shop'', name = ''cart'', user = ''contoso'', token = []\<rparr>"
  let ?ph = "\<lparr>protocol = ''https'', resource = ''contoso.visualstudio.com'',
            pathname = ''/shop/_git/cart'', organization = ''contoso'',
            owner = ''shop'', name = ''cart'', user = [], token = []\<rparr>"
  let ?pg = "\<lparr>protocol = ''git'', resource = ''contoso.visualstudio.com'',
            pathname = ''/shop/_git/cart'', organization = ''contoso'',
            owner = ''shop'', name = ''cart'', user = [], token = []\<rparr>"
  have s: "GitUrlParse ?e ?s = Inr ?ps" and h: "GitUrlParse ?e ?h = Inr ?ph"
    and g: "GitUrlParse ?e ?g = Inr ?pg"
    by (simp_all add: sample_env_sel sample_parse_def)
  have vs: "str_includes (resource ?ps) ''visualstudio.com''"
      "str_includes (resource ?ph) ''visualstudio.com''"
      "str_includes (resource ?pg) ''visualstudio.com''"
    and az: "\<not> str_includes (resource ?ps) ''dev.azure.com''"
      "\<not> str_includes (resource ?ph) ''dev.azure.com''"
      "\<not> str_includes (resource ?pg) ''dev.azure.com''"
    by simp_all
  from visualstudio_links [OF s vs(1) az(1), of fresh "''master''" "''feature''"]
    visualstudio_links [OF h vs(2) az(2), of fresh "''master''" "''feature''"]
    visualstudio_links [OF g vs(3) az(3), of fresh "''master''" "''feature''"]
    s h g
  show ?thesis by (simp add: toLowerCase_samples)
qed

text \<open>
  C2, as stated, fails: on an unsupported host \<open>getPullRequestLink\<close> does not fail, it
  logs and returns a sentence telling the user to open the pull request by hand; on a
  \<open>visualstudio.com\<close> remote with protocol \<open>git\<close>, \<open>getRepositoryName\<close>
  returns the name; and the protocol \<open>HTTPS\<close>, which is neither \<open>ssh\<close> nor
  \<open>https\<close>, is accepted.
\<close>

theorem unsupported_host_counterexample:
  "sample_parse ''https://gitlab.com/contoso/cart.git''
     = Inr \<lparr>protocol = ''https'', resource = ''gitlab.com'',
            pathname = ''/contoso/cart.git'', organization = ''contoso'',
            owner = ''contoso'', name = ''cart'', user = [], token = []\<rparr>
   \<and> getPullRequestLink (sample_env [] [] None) ''master'' ''feature''
        ''https://gitlab.com/contoso/cart.git'' fresh
       = (Inr (''Could not determine origin repository, or it is not a supported provider. ''
               @ ''Please check for the newly pushed branch and open a PR manually.''),
          [Logged Err ''Could not determine origin repository, or it is not a supported type.''])
   \<and> sample_parse ''git://contoso.visualstudio.com/shop/_git/cart''
     = Inr \<lparr>protocol = ''git'', resource = ''contoso.visualstudio.com'',
            pathname = ''/shop/_git/cart'', organization = ''contoso'',
            owner = ''shop'', name = ''cart'', user = [], token = []\<rparr>
   \<and> fst (getRepositoryName (sample_env [] [] None)
            ''git://contoso.visualstudio.com/shop/_git/cart'' fresh) = Inr ''cart''
   \<and> sample_parse ''HTTPS://contoso.visualstudio.com/shop/_git/cart''
     = Inr \<lparr>protocol = ''HTTPS'', resource = ''contoso.visualstudio.com'',
            pathname = ''/shop/_git/cart'', organization = ''contoso'',
            owner = ''shop'', name = ''cart'', user = [], token = []\<rparr>
   \<and> fst (getPullRequestLink (sample_env [] [] None) ''master'' ''feature''
            ''HTTPS://contoso.visualstudio.com/shop/_git/cart'' fresh)
       = Inr (''https://contoso.visualstudio.com/shop/_git/cart''
              @ ''/pullrequestcreate?sourceRef=feature&targetRef=master'')"
  by (simp add: getPullRequestLink_def pullRequestLink_body_def getRepositoryName_def Let_def
      sample_env_sel sample_parse_def toLowerCase_samples fresh_def logger_def)

text \<open>
  C2, amended. When the parsed resource contains neither \<open>dev.azure.com\<close> nor
  \<open>visualstudio.com\<close> and is not \<open>github.com\<close>: \<open>getRepositoryName\<close> throws an
  error built with \<open>VALIDATION_ERR\<close> and \<open>getRepositoryUrl\<close> throws an \<open>Error\<close>,
  both without logging; \<open>getPullRequestLink\<close> does not fail, it logs an error line and
  returns the sentence asking for a manual pull request. When the resource contains
  \<open>visualstudio.com\<close> and not \<open>dev.azure.com\<close>, and the lower-cased protocol is
  neither \<open>ssh\<close> nor \<open>https\<close>: \<open>getRepositoryUrl\<close> and \<open>getPullRequestLink\<close>
  throw and \<open>getRepositoryName\<close> returns the name, each after logging that a
  \<open>visualstudio.com\<close> repository was found.
\<close>

theorem unsupported_host_outcomes:
  "(GitUrlParse e originUrl = Inr p
      \<and> \<not> str_includes (resource p) ''dev.azure.com''
      \<and> \<not> str_includes (resource p) ''visualstudio.com''
      \<and> resource p \<noteq> ''github.com'' \<longrightarrow>
      getRepositoryName e originUrl w =
        (Inl (Chain (ErrorChain VALIDATION_ERR
                       (if startsWith (resource p) ''http''
                        then ''git-err-validating-remote-git''
                        else ''git-err-invalid-repository-url'')
                       None)), w)
    \<and> getRepositoryUrl e originUrl w =
        (Inl (Error ''Could not determine origin repository, or it is not a supported type.''),
         w)
    \<and> getPullRequestLink e baseBranch newBranch originUrl w =
        (Inr (''Could not determine origin repository, or it is not a supported provider. ''
              @ ''Please check for the newly pushed branch and open a PR manually.''),
         w @ [Logged Err
                ''Could not determine origin repository, or it is not a supported type.'']))
   \<and> (GitUrlParse e originUrl = Inr p
      \<and> str_includes (resource p) ''visualstudio.com''
      \<and> \<not> str_includes (resource p) ''dev.azure.com''
      \<and> toLowerCase (protocol p) \<noteq> ''ssh''
      \<and> toLowerCase (protocol p) \<noteq> ''https'' \<longrightarrow>
      getRepositoryUrl e originUrl w =
        (Inl (invalid_protocol originUrl (protocol p)),
         w @ [Logged Debug ''visualstudio.com repo found''])
    \<and> getPullRequestLink e baseBranch newBranch originUrl w =
        (Inl (Error (dq @ ''Could not determine git provider, or it is not a supported type.''
                     @ dq @ '': '' @ toString (invalid_protocol originUrl (protocol p)))),
         w @ [Logged Debug ''visualstudio.com repo found''])
    \<and> getRepositoryName e originUrl w =
        (Inr (name p), w @ [Logged Debug ''visualstudio.com repo found'']))"
proof (intro conjI impI)
  assume "GitUrlParse e originUrl = Inr p
      \<and> \<not> str_includes (resource p) ''dev.azure.com''
      \<and> \<not> str_includes (resource p) ''visualstudio.com''
      \<and> resource p \<noteq> ''github.com''"
  then show "getRepositoryName e originUrl w =
        (Inl (Chain (ErrorChain VALIDATION_ERR
                       (if startsWith (resource p) ''http''
                        then ''git-err-validating-remote-git''
                        else ''git-err-invalid-repository-url'')
                       None)), w)"
    and "getRepositoryUrl e originUrl w =
        (Inl (Error ''Could not determine origin repository, or it is not a supported type.''),
         w)"
    and "getPullRequestLink e baseBranch newBranch originUrl w =
        (Inr (''Could not determine origin repository, or it is not a supported provider. ''
              @ ''Please check for the newly pushed branch and open a PR manually.''),
         w @ [Logged Err
                ''Could not determine origin repository, or it is not a supported type.''])"
    by (simp_all add: getRepositoryName_def getRepositoryUrl_def getPullRequestLink_def
        pullRequestLink_body_def logger_def Let_def)
next
  assume a: "GitUrlParse e originUrl = Inr p
      \<and> str_includes (resource p) ''visualstudio.com''
      \<and> \<not> str_includes (resource p) ''dev.azure.com''
      \<and> toLowerCase (protocol p) \<noteq> ''ssh''
      \<and> toLowerCase (protocol p) \<noteq> ''https''"
  then have pr: "GitUrlParse e originUrl = Inr p"
    and vs: "str_includes (resource p) ''visualstudio.com''"
    and az: "\<not> str_includes (resource p) ''dev.azure.com''"
    by simp_all
  from a show "getRepositoryUrl e originUrl w =
        (Inl (invalid_protocol originUrl (protocol p)),
         w @ [Logged Debug ''visualstudio.com repo found''])"
    by (simp add: visualstudio_branch(1) [OF pr vs az])
  from a show "getPullRequestLink e baseBranch newBranch originUrl w =
        (Inl (Error (dq @ ''Could not determine git provider, or it is not a supported type.''
                     @ dq @ '': '' @ toString (invalid_protocol originUrl (protocol p)))),
         w @ [Logged Debug ''visualstudio.com repo found''])"
    by (simp add: visualstudio_branch(2) [OF pr vs az])
  from pr vs az show "getRepositoryName e originUrl w =
        (Inr (name p), w @ [Logged Debug ''visualstudio.com repo found''])"
    by (simp add: getRepositoryName_def logger_def)
qed

theorem unsupported_host_outcomes_witness:
  "GitUrlParse (sample_env [] [] None) ''https://gitlab.com/contoso/cart.git''
     = Inr \<lparr>protocol = ''https'', resource = ''gitlab.com'',
            pathname = ''/contoso/cart.git'', organization = ''contoso'',
            owner = ''contoso'', name = ''cart'', user = [], token = []\<rparr>
   \<and> getRepositoryName (sample_env [] [] None) ''https://gitlab.com/contoso/cart.git'' fresh
       = (Inl (Chain (ErrorChain VALIDATION_ERR ''git-err-invalid-repository-url'' None)), [])
   \<and> getRepositoryUrl (sample_env [] [] None) ''https://gitlab.com/contoso/cart.git'' fresh
       = (Inl (Error ''Could not determine origin repository, or it is not a supported type.''),
          [])
   \<and> getPullRequestLink (sample_env [] [] None) ''master'' ''feature''
        ''https://gitlab.com/contoso/cart.git'' fresh
       = (Inr (''Could not determine origin repository, or it is not a supported provider. ''
               @ ''Please check for the newly pushed branch and open a PR manually.''),
          [Logged Err ''Could not determine origin repository, or it is not a supported type.''])
   \<and> GitUrlParse (sample_env [] [] None) ''git://contoso.visualstudio.com/shop/_git/cart''
     = Inr \<lparr>protocol = ''git'', resource = ''contoso.visualstudio.com'',
            pathname = ''/shop/_git/cart'', organization = ''contoso'',
            owner = ''shop'', name = ''cart'', user = [], token = []\<rparr>
   \<and> getRepositoryUrl (sample_env [] [] None)
        ''git://contoso.visualstudio.com/shop/_git/cart'' fresh
       = (Inl (invalid_protocol ''git://contoso.visualstudio.com/shop/_git/cart'' ''git''),
          [Logged Debug ''visualstudio.com repo found''])
   \<and> getPullRequestLink (sample_env [] [] None) ''master'' ''feature''
        ''git://contoso.visualstudio.com/shop/_git/cart'' fresh
       = (Inl (Error (dq @ ''Could not determine git provider, or it is not a supported type.''
                      @ dq @ '': ''
                      @ toString (invalid_protocol
                                    ''git://contoso.visualstudio.com/shop/_git/cart'' ''git''))),
          [Logged Debug ''visualstudio.com repo found''])
   \<and> getRepositoryName (sample_env [] [] None)
        ''git://contoso.visualstudio.com/shop/_git/cart'' fresh
       = (Inr ''cart'', [Logged Debug ''visualstudio.com repo found''])"
proof -
  let ?e = "sample_env [] [] None"
  let ?l = "''https://gitlab.com/contoso/cart.git''"
  let ?g = "''git://contoso.visualstudio.com/shop/_git/cart''"
  let ?pl = "\<lparr>protocol = ''https'', resource = ''gitlab.com'',
            pathname = ''/contoso/cart.git'', organization = ''contoso'',
            owner = ''contoso'', name = ''cart'', user = [], token = []\<rparr>"
  let ?pg = "\<lparr>protocol = ''git'', resource = ''contoso.visualstudio.com'',
            pathname = ''/shop/_git/cart'', organization = ''contoso'',
            owner = ''shop'', name = ''cart'', user = [], token = []\<rparr>"
  have l: "GitUrlParse ?e ?l = Inr ?pl
      \<and> \<not> str_includes (resource ?pl) ''dev.azure.com''
      \<and> \<not> str_includes (resource ?pl) ''visualstudio.com''
      \<and> resource ?pl \<noteq> ''github.com''"
    by (simp add: sample_env_sel sample_parse_def)
  have g: "GitUrlParse ?e ?g = Inr ?pg
      \<and> str_includes (resource ?pg) ''visualstudio.com''
      \<and> \<not> str_includes (resource ?pg) ''dev.azure.com''
      \<and> toLowerCase (protocol ?pg) \<noteq> ''ssh''
      \<and> toLowerCase (protocol ?pg) \<noteq> ''https''"
    by (simp add: sample_env_sel sample_parse_def toLowerCase_samples)
  note first = unsupported_host_outcomes [of ?e ?l ?pl fresh "''master''" "''feature''",
      THEN conjunct1, THEN mp, OF l]
  note second = unsupported_host_outcomes [of ?e ?g ?pg fresh "''master''" "''feature''",
      THEN conjunct2, THEN mp, OF g]
  from first second l g show ?thesis
    by (simp add: fresh_def startsWith_def)
qed

section \<open>Origin lookup and what is logged\<close>

lemma getOriginUrl_run:
  "getOriginUrl e d w =
     (let c = git [''config'', ''--get'', ''remote.origin.url'']
                (Some (case d of None \<Rightarrow> ''.'' | Some dir \<Rightarrow> dir)) in
      case shell e (trace w) c of
        Inl err \<Rightarrow> (Inl (Error (''Unable to get git origin URL: '' @ err)), w @ [Spawned c])
      | Inr originUrl \<Rightarrow>
          (case safeGitUrlForLogging e originUrl of
             Inl err \<Rightarrow>
               (Inl (Error (''Unable to get git origin URL: '' @ toString err)), w @ [Spawned c])
           | Inr s \<Rightarrow>
               (Inr originUrl, w @ [Spawned c, Logged Debug (''Got git origin url '' @ s)])))"
  by (simp add: getOriginUrl_def exec_def logger_def Let_def split: sum.splits)

lemma getAzdoOriginUrl_run:
  "getAzdoOriginUrl e w =
     (case APP_REPO_URL e of
        None \<Rightarrow>
          (Inl (Error (''Unable to get azdo origin URL: ''
                       @ ''Error: Not running in a pipeline - no AzDO variables.'')), w)
      | Some a \<Rightarrow>
          if a = []
          then (Inl (Error (''Unable to get azdo origin URL: ''
                            @ ''Error: Not running in a pipeline - no AzDO variables.'')), w)
          else (case safeGitUrlForLogging e a of
                  Inl err \<Rightarrow> (Inl (Error (''Unable to get azdo origin URL: '' @ toString err)), w)
                | Inr s \<Rightarrow> (Inr a, w @ [Logged Debug (''Got azdo git origin url '' @ s)])))"
  by (simp add: getAzdoOriginUrl_def logger_def Let_def split: option.splits sum.splits)

lemma safeGitUrlForLogging_Inl:
  "GitUrlParse e u = Inl err \<Longrightarrow> safeGitUrlForLogging e u = Inl err"
  by (simp add: safeGitUrlForLogging_def)

lemma getRepositoryName_effects:
  "\<exists>evs. snd (getRepositoryName e u w) = w @ evs \<and> set evs \<subseteq> set resolver_lines"
  by (simp add: getRepositoryName_def logger_def resolver_lines_def split: sum.splits)

lemma getRepositoryUrl_effects:
  "\<exists>evs. snd (getRepositoryUrl e u w) = w @ evs \<and> set evs \<subseteq> set resolver_lines"
  by (simp add: getRepositoryUrl_def Let_def logger_def resolver_lines_def split: sum.splits)

lemma getPullRequestLink_run:
  "getPullRequestLink e b n u w = (link_of e b n u, w @ link_lines e u)"
  by (simp add: link_of_def link_lines_def getPullRequestLink_def pullRequestLink_body_def
      logger_def Let_def split: sum.splits)

lemma link_lines_fixed: "set (link_lines e u) \<subseteq> set resolver_lines"
  by (cases "GitUrlParse e u") (simp_all add: link_lines_def resolver_lines_def)

lemma getPullRequestLink_effects:
  "\<exists>evs. snd (getPullRequestLink e b n u w) = w @ evs \<and> set evs \<subseteq> set resolver_lines"
  by (simp add: getPullRequestLink_run link_lines_fixed)

text \<open>
  C7. When the parsed URL carries a user or a token, \<open>safeGitUrlForLogging\<close> returns
  \<open>{protocol}://{resource}{pathname}\<close>, built from these three fields alone. The one
  line that \<open>getOriginUrl\<close> and \<open>getAzdoOriginUrl\<close> log holds what
  \<open>safeGitUrlForLogging\<close> returned, while the URL itself is returned unchanged; when
  \<open>safeGitUrlForLogging\<close> throws they log nothing and throw. Beyond that line
  \<open>getOriginUrl\<close> only spawns the one \<open>git config\<close> read and \<open>getAzdoOriginUrl\<close>
  spawns nothing; the three resolver operations spawn nothing and log only lines of
  \<open>resolver_lines\<close>, which hold no part of the URL.
\<close>

theorem logging_is_scrubbed:
  "(GitUrlParse e u = Inr p \<and> (user p \<noteq> [] \<or> token p \<noteq> []) \<longrightarrow>
      safeGitUrlForLogging e u = Inr (protocol p @ ''://'' @ resource p @ pathname p))
   \<and> (shell e (trace w)
          (git [''config'', ''--get'', ''remote.origin.url'']
             (Some (case d of None \<Rightarrow> ''.'' | Some dir \<Rightarrow> dir))) = Inr u
        \<and> safeGitUrlForLogging e u = Inr s
        \<longrightarrow> getOriginUrl e d w =
              (Inr u,
               w @ [Spawned (git [''config'', ''--get'', ''remote.origin.url'']
                               (Some (case d of None \<Rightarrow> ''.'' | Some dir \<Rightarrow> dir))),
                    Logged Debug (''Got git origin url '' @ s)]))
   \<and> (shell e (trace w)
          (git [''config'', ''--get'', ''remote.origin.url'']
             (Some (case d of None \<Rightarrow> ''.'' | Some dir \<Rightarrow> dir))) = Inr u
        \<and> safeGitUrlForLogging e u = Inl err
        \<longrightarrow> getOriginUrl e d w =
              (Inl (Error (''Unable to get git origin URL: '' @ toString err)),
               w @ [Spawned (git [''config'', ''--get'', ''remote.origin.url'']
                               (Some (case d of None \<Rightarrow> ''.'' | Some dir \<Rightarrow> dir)))]))
   \<and> (APP_REPO_URL e = Some u \<and> u \<noteq> [] \<and> safeGitUrlForLogging e u = Inr s \<longrightarrow>
        getAzdoOriginUrl e w = (Inr u, w @ [Logged Debug (''Got azdo git origin url '' @ s)]))
   \<and> (APP_REPO_URL e = Some u \<and> u \<noteq> [] \<and> safeGitUrlForLogging e u = Inl err \<longrightarrow>
        getAzdoOriginUrl e w =
          (Inl (Error (''Unable to get azdo origin URL: '' @ toString err)), w))
   \<and> (\<exists>evs. snd (getRepositoryName e u w) = w @ evs \<and> set evs \<subseteq> set resolver_lines)
   \<and> (\<exists>evs. snd (getRepositoryUrl e u w) = w @ evs \<and> set evs \<subseteq> set resolver_lines)
   \<and> (\<exists>evs. snd (getPullRequestLink e b n u w) = w @ evs
             \<and> set evs \<subseteq> set resolver_lines)"
proof (intro conjI impI)
  assume "GitUrlParse e u = Inr p \<and> (user p \<noteq> [] \<or> token p \<noteq> [])"
  then show "safeGitUrlForLogging e u = Inr (protocol p @ ''://'' @ resource p @ pathname p)"
    by (auto simp add: safeGitUrlForLogging_def)
next
  assume "shell e (trace w)
          (git [''config'', ''--get'', ''remote.origin.url'']
             (Some (case d of None \<Rightarrow> ''.'' | Some dir \<Rightarrow> dir))) = Inr u
        \<and> safeGitUrlForLogging e u = Inr s"
  then show "getOriginUrl e d w =
              (Inr u,
               w @ [Spawned (git [''config'', ''--get'', ''remote.origin.url'']
                               (Some (case d of None \<Rightarrow> ''.'' | Some dir \<Rightarrow> dir))),
                    Logged Debug (''Got git origin url '' @ s)])"
    by (simp add: getOriginUrl_run Let_def)
next
  assume "shell e (trace w)
          (git [''config'', ''--get'', ''remote.origin.url'']
             (Some (case d of None \<Rightarrow> ''.'' | Some dir \<Rightarrow> dir))) = Inr u
        \<and> safeGitUrlForLogging e u = Inl err"
  then show "getOriginUrl e d w =
              (Inl (Error (''Unable to get git origin URL: '' @ toString err)),
               w @ [Spawned (git [''config'', ''--get'', ''remote.origin.url'']
                               (Some (case d of None \<Rightarrow> ''.'' | Some dir \<Rightarrow> dir)))])"
    by (simp add: getOriginUrl_run Let_def)
next
  assume "APP_REPO_URL e = Some u \<and> u \<noteq> [] \<and> safeGitUrlForLogging e u = Inr s"
  then show "getAzdoOriginUrl e w =
          (Inr u, w @ [Logged Debug (''Got azdo git origin url '' @ s)])"
    by (simp add: getAzdoOriginUrl_run)
next
  assume "APP_REPO_URL e = Some u \<and> u \<noteq> [] \<and> safeGitUrlForLogging e u = Inl err"
  then show "getAzdoOriginUrl e w =
          (Inl (Error (''Unable to get azdo origin URL: '' @ toString err)), w)"
    by (simp add: getAzdoOriginUrl_run)
qed (rule getRepositoryName_effects getRepositoryUrl_effects getPullRequestLink_effects)+

theorem logging_is_scrubbed_witness:
  "GitUrlParse
     (sample_env ''https://pat123@dev.azure.com/contoso/shop/_git/cart'' []
        (Some ''https://pat123@dev.azure.com/contoso/shop/_git/cart''))
     ''https://pat123@dev.azure.com/contoso/shop/_git/cart''
     = Inr \<lparr>protocol = ''https'', resource = ''dev.azure.com'',
            pathname = ''/contoso/shop/_git/cart'', organization = ''contoso'',
            owner = ''shop'', name = ''cart'', user = ''pat123'', token = []\<rparr>
   \<and> safeGitUrlForLogging
        (sample_env ''https://pat123@dev.azure.com/contoso/shop/_git/cart'' []
           (Some ''https://pat123@dev.azure.com/contoso/shop/_git/cart''))
        ''https://pat123@dev.azure.com/contoso/shop/_git/cart''
       = Inr ''https://dev.azure.com/contoso/shop/_git/cart''
   \<and> getOriginUrl
        (sample_env ''https://pat123@dev.azure.com/contoso/shop/_git/cart'' []
           (Some ''https://pat123@dev.azure.com/contoso/shop/_git/cart''))
        (Some ''/home/dev/repo'') fresh
       = (Inr ''https://pat123@dev.azure.com/contoso/shop/_git/cart'',
          [Spawned (git [''config'', ''--get'', ''remote.origin.url''] (Some ''/home/dev/repo'')),
           Logged Debug ''Got git origin url https://dev.azure.com/contoso/shop/_git/cart''])
   \<and> getAzdoOriginUrl
        (sample_env ''https://pat123@dev.azure.com/contoso/shop/_git/cart'' []
           (Some ''https://pat123@dev.azure.com/contoso/shop/_git/cart'')) fresh
       = (Inr ''https://pat123@dev.azure.com/contoso/shop/_git/cart'',
          [Logged Debug ''Got azdo git origin url https://dev.azure.com/contoso/shop/_git/cart''])
   \<and> getOriginUrl (sample_env '' '' [] (Some '' '')) None fresh
       = (Inl (Error ''Unable to get git origin URL: Error: Invalid url.''),
          [Spawned (git [''config'', ''--get'', ''remote.origin.url''] (Some ''.''))])
   \<and> getAzdoOriginUrl (sample_env '' '' [] (Some '' '')) fresh
       = (Inl (Error ''Unable to get azdo origin URL: Error: Invalid url.''), [])"
proof -
  let ?u = "''https://pat123@dev.azure.com/contoso/shop/_git/cart''"
  let ?e = "sample_env ?u [] (Some ?u)"
  let ?b = "sample_env '' '' [] (Some '' '')"
  let ?p = "\<lparr>protocol = ''https'', resource = ''dev.azure.com'',
            pathname = ''/contoso/shop/_git/cart'', organization = ''contoso'',
            owner = ''shop'', name = ''cart'', user = ''pat123'', token = []\<rparr>"
  have p: "GitUrlParse ?e ?u = Inr ?p \<and> (user ?p \<noteq> [] \<or> token ?p \<noteq> [])"
    by (simp add: sample_env_sel sample_parse_def)
  note safe = logging_is_scrubbed [of ?e ?u ?p, THEN conjunct1, THEN mp, OF p]
  have safe': "safeGitUrlForLogging ?e ?u = Inr ''https://dev.azure.com/contoso/shop/_git/cart''"
    using safe by simp
  have s: "shell ?e (trace fresh)
             (git [''config'', ''--get'', ''remote.origin.url'']
                (Some (case Some ''/home/dev/repo'' of None \<Rightarrow> ''.'' | Some dir \<Rightarrow> dir))) = Inr ?u
           \<and> safeGitUrlForLogging ?e ?u = Inr ''https://dev.azure.com/contoso/shop/_git/cart''"
    using safe' by (simp add: sample_env_sel sample_shell_def git_def fresh_def)
  have a: "APP_REPO_URL ?e = Some ?u \<and> ?u \<noteq> []
           \<and> safeGitUrlForLogging ?e ?u = Inr ''https://dev.azure.com/contoso/shop/_git/cart''"
    using safe' by (simp add: sample_env_sel)
  have bs: "shell ?b (trace fresh)
             (git [''config'', ''--get'', ''remote.origin.url'']
                (Some (case None of None \<Rightarrow> ''.'' | Some dir \<Rightarrow> dir))) = Inr '' ''
           \<and> safeGitUrlForLogging ?b '' '' = Inl (Error ''Invalid url.'')"
    by (simp add: sample_env_sel sample_shell_def git_def fresh_def safeGitUrlForLogging_def
        sample_parse_def)
  have ba: "APP_REPO_URL ?b = Some '' '' \<and> '' '' \<noteq> []
           \<and> safeGitUrlForLogging ?b '' '' = Inl (Error ''Invalid url.'')"
    by (simp add: sample_env_sel safeGitUrlForLogging_def sample_parse_def)
  note c2 = logging_is_scrubbed [THEN conjunct2, THEN conjunct1, THEN mp, OF s]
  note c3 = logging_is_scrubbed [THEN conjunct2, THEN conjunct2, THEN conjunct1, THEN mp, OF bs]
  note c4 = logging_is_scrubbed [THEN conjunct2, THEN conjunct2, THEN conjunct2, THEN conjunct1,
      THEN mp, OF a]
  note c5 = logging_is_scrubbed [THEN conjunct2, THEN conjunct2, THEN conjunct2, THEN conjunct2,
      THEN conjunct1, THEN mp, OF ba]
  from p safe' c2 c3 c4 c5 show ?thesis
    by (simp add: fresh_def)
qed

text \<open>
  C8, as stated, fails: with \<open>APP_REPO_URL\<close> set to a blank, which is not empty, the
  parser throws inside the \<open>try\<close> of \<open>getAzdoOriginUrl\<close>, and \<open>tryGetGitOrigin\<close>
  asks git although the variable is set.
\<close>

theorem origin_override_counterexample:
  "APP_REPO_URL (sample_env ''git@github.com:contoso/cart.git'' [] (Some '' '')) = Some '' ''
   \<and> '' '' \<noteq> []
   \<and> tryGetGitOrigin (sample_env ''git@github.com:contoso/cart.git'' [] (Some '' ''))
        (Some ''/home/dev/repo'') fresh
       = (Inr ''git@github.com:contoso/cart.git'',
          [Logged Warn (''Could not get Git Origin for Azure DevOps - are you running '' @ sq
                        @ ''spk'' @ sq @ '' _not_ in a pipeline?''),
           Spawned (git [''config'', ''--get'', ''remote.origin.url''] (Some ''/home/dev/repo'')),
           Logged Debug ''Got git origin url ssh://github.com/contoso/cart.git''])"
  by (simp add: tryGetGitOrigin_def getAzdoOriginUrl_run getOriginUrl_run Let_def logger_def
      safeGitUrlForLogging_def sample_env_sel sample_parse_def sample_shell_def git_def
      fresh_def)

text \<open>
  C8, amended. With \<open>APP_REPO_URL\<close> set, not empty and accepted by the parser,
  \<open>tryGetGitOrigin\<close> returns its value and spawns no git command: it only logs what
  \<open>safeGitUrlForLogging\<close> made of it. With \<open>APP_REPO_URL\<close> unset, empty or rejected
  by the parser, it logs a warning and is \<open>getOriginUrl\<close> on the given path: it spawns
  \<open>git config --get remote.origin.url\<close> there (in \<open>.\<close> when no path is given) and
  returns what git printed, or throws when git fails or the parser rejects what git
  printed.
\<close>

theorem origin_override_then_git:
  "(APP_REPO_URL e = Some a \<and> a \<noteq> [] \<and> safeGitUrlForLogging e a = Inr s \<longrightarrow>
      tryGetGitOrigin e absRepoPath w =
        (Inr a, w @ [Logged Debug (''Got azdo git origin url '' @ s)]))
   \<and> (APP_REPO_URL e = None \<or> APP_REPO_URL e = Some []
        \<or> (APP_REPO_URL e = Some a \<and> GitUrlParse e a = Inl perr) \<longrightarrow>
      tryGetGitOrigin e absRepoPath w =
        getOriginUrl e absRepoPath
          (w @ [Logged Warn (''Could not get Git Origin for Azure DevOps - are you running ''
                             @ sq @ ''spk'' @ sq @ '' _not_ in a pipeline?'')])
    \<and> trace (snd (tryGetGitOrigin e absRepoPath w)) =
        trace w @ [git [''config'', ''--get'', ''remote.origin.url'']
                     (Some (case absRepoPath of None \<Rightarrow> ''.'' | Some dir \<Rightarrow> dir))]
    \<and> fst (tryGetGitOrigin e absRepoPath w) =
        (case shell e (trace w)
                (git [''config'', ''--get'', ''remote.origin.url'']
                   (Some (case absRepoPath of None \<Rightarrow> ''.'' | Some dir \<Rightarrow> dir))) of
           Inl err \<Rightarrow> Inl (Error (''Unable to get git origin URL: '' @ err))
         | Inr originUrl \<Rightarrow>
             (case GitUrlParse e originUrl of
                Inl err \<Rightarrow> Inl (Error (''Unable to get git origin URL: '' @ toString err))
              | Inr p \<Rightarrow> Inr originUrl)))"
proof (intro conjI impI)
  assume "APP_REPO_URL e = Some a \<and> a \<noteq> [] \<and> safeGitUrlForLogging e a = Inr s"
  then show "tryGetGitOrigin e absRepoPath w =
        (Inr a, w @ [Logged Debug (''Got azdo git origin url '' @ s)])"
    by (simp add: tryGetGitOrigin_def getAzdoOriginUrl_run)
next
  assume unset: "APP_REPO_URL e = None \<or> APP_REPO_URL e = Some []
        \<or> (APP_REPO_URL e = Some a \<and> GitUrlParse e a = Inl perr)"
  then have "isl (fst (getAzdoOriginUrl e w)) \<and> snd (getAzdoOriginUrl e w) = w"
    by (auto simp add: getAzdoOriginUrl_run safeGitUrlForLogging_Inl)
  then show fallback: "tryGetGitOrigin e absRepoPath w =
        getOriginUrl e absRepoPath
          (w @ [Logged Warn (''Could not get Git Origin for Azure DevOps - are you running ''
                             @ sq @ ''spk'' @ sq @ '' _not_ in a pipeline?'')])"
    by (cases "getAzdoOriginUrl e w")
      (auto simp add: tryGetGitOrigin_def logger_def isl_def)
  show "trace (snd (tryGetGitOrigin e absRepoPath w)) =
        trace w @ [git [''config'', ''--get'', ''remote.origin.url'']
                     (Some (case absRepoPath of None \<Rightarrow> ''.'' | Some dir \<Rightarrow> dir))]"
    unfolding fallback
    by (simp add: getOriginUrl_run Let_def split: sum.splits)
  show "fst (tryGetGitOrigin e absRepoPath w) =
        (case shell e (trace w)
                (git [''config'', ''--get'', ''remote.origin.url'']
                   (Some (case absRepoPath of None \<Rightarrow> ''.'' | Some dir \<Rightarrow> dir))) of
           Inl err \<Rightarrow> Inl (Error (''Unable to get git origin URL: '' @ err))
         | Inr originUrl \<Rightarrow>
             (case GitUrlParse e originUrl of
                Inl err \<Rightarrow> Inl (Error (''Unable to get git origin URL: '' @ toString err))
              | Inr p \<Rightarrow> Inr originUrl))"
    unfolding fallback
    by (simp add: getOriginUrl_run safeGitUrlForLogging_def Let_def split: sum.splits)
qed

theorem origin_override_then_git_witness:
  "APP_REPO_URL (sample_env ''git@github.com:contoso/cart.git'' []
       (Some ''https://dev.azure.com/contoso/shop/_git/cart''))
     = Some ''https://dev.azure.com/contoso/shop/_git/cart''
   \<and> tryGetGitOrigin (sample_env ''git@github.com:contoso/cart.git'' []
         (Some ''https://dev.azure.com/contoso/shop/_git/cart'')) (Some ''/home/dev/repo'') fresh
       = (Inr ''https://dev.azure.com/contoso/shop/_git/cart'',
          [Logged Debug
             ''Got azdo git origin url https://dev.azure.com/contoso/shop/_git/cart''])
   \<and> APP_REPO_URL (sample_env ''git@github.com:contoso/cart.git'' [] None) = None
   \<and> fst (tryGetGitOrigin (sample_env ''git@github.com:contoso/cart.git'' [] None)
            (Some ''/home/dev/repo'') fresh)
       = Inr ''git@github.com:contoso/cart.git''
   \<and> trace (snd (tryGetGitOrigin (sample_env ''git@github.com:contoso/cart.git'' [] None)
            (Some ''/home/dev/repo'') fresh))
       = [git [''config'', ''--get'', ''remote.origin.url''] (Some ''/home/dev/repo'')]
   \<and> APP_REPO_URL (sample_env ''git@github.com:contoso/cart.git'' [] (Some '' '')) = Some '' ''
   \<and> GitUrlParse (sample_env ''git@github.com:contoso/cart.git'' [] (Some '' '')) '' ''
       = Inl (Error ''Invalid url.'')
   \<and> fst (tryGetGitOrigin (sample_env ''git@github.com:contoso/cart.git'' [] (Some '' ''))
            None fresh)
       = Inr ''git@github.com:contoso/cart.git''
   \<and> trace (snd (tryGetGitOrigin (sample_env ''git@github.com:contoso/cart.git'' []
                                     (Some '' '')) None fresh))
       = [git [''config'', ''--get'', ''remote.origin.url''] (Some ''.'')]"
proof -
  let ?g = "''git@github.com:contoso/cart.git''"
  let ?a = "''https://dev.azure.com/contoso/shop/_git/cart''"
  have set: "APP_REPO_URL (sample_env ?g [] (Some ?a)) = Some ?a \<and> ?a \<noteq> []
             \<and> safeGitUrlForLogging (sample_env ?g [] (Some ?a)) ?a = Inr ?a"
    and unset: "APP_REPO_URL (sample_env ?g [] None) = None
                \<or> APP_REPO_URL (sample_env ?g [] None) = Some []
                \<or> (APP_REPO_URL (sample_env ?g [] None) = Some []
                    \<and> GitUrlParse (sample_env ?g [] None) [] = Inl (Error ''Invalid url.''))"
    and blank: "APP_REPO_URL (sample_env ?g [] (Some '' '')) = None
                \<or> APP_REPO_URL (sample_env ?g [] (Some '' '')) = Some []
                \<or> (APP_REPO_URL (sample_env ?g [] (Some '' '')) = Some '' ''
                    \<and> GitUrlParse (sample_env ?g [] (Some '' '')) '' ''
                        = Inl (Error ''Invalid url.''))"
    by (simp_all add: sample_env_sel safeGitUrlForLogging_def sample_parse_def)
  have parse: "GitUrlParse (sample_env ?g [] None) ?g
      = Inr \<lparr>protocol = ''ssh'', resource = ''github.com'',
            pathname = ''/contoso/cart.git'', organization = ''contoso'',
            owner = ''contoso'', name = ''cart'', user = ''git'', token = []\<rparr>"
    "GitUrlParse (sample_env ?g [] (Some '' '')) ?g
      = Inr \<lparr>protocol = ''ssh'', resource = ''github.com'',
            pathname = ''/contoso/cart.git'', organization = ''contoso'',
            owner = ''contoso'', name = ''cart'', user = ''git'', token = []\<rparr>"
    by (simp_all add: sample_env_sel sample_parse_def)
  have s: "shell (sample_env ?g [] None) (trace fresh)
             (git [''config'', ''--get'', ''remote.origin.url''] (Some ''/home/dev/repo'')) = Inr ?g"
    "shell (sample_env ?g [] (Some '' '')) (trace fresh)
             (git [''config'', ''--get'', ''remote.origin.url''] (Some ''.'')) = Inr ?g"
    by (simp_all add: sample_env_sel sample_shell_def git_def)
  from origin_override_then_git [where e = "sample_env ?g [] (Some ?a)" and a = ?a and s = ?a
      and absRepoPath = "Some ''/home/dev/repo''" and w = fresh,
      THEN conjunct1, THEN mp, OF set]
  have first: "tryGetGitOrigin (sample_env ?g [] (Some ?a)) (Some ''/home/dev/repo'') fresh
       = (Inr ?a, [Logged Debug
             ''Got azdo git origin url https://dev.azure.com/contoso/shop/_git/cart''])"
    by (simp add: fresh_def)
  from origin_override_then_git [where e = "sample_env ?g [] None" and a = "[]"
      and perr = "Error ''Invalid url.''" and absRepoPath = "Some ''/home/dev/repo''"
      and w = fresh, THEN conjunct2, THEN mp, OF unset, THEN conjunct2]
    s(1) parse(1)
  have second: "trace (snd (tryGetGitOrigin (sample_env ?g [] None) (Some ''/home/dev/repo'') fresh))
                  = [git [''config'', ''--get'', ''remote.origin.url''] (Some ''/home/dev/repo'')]
      \<and> fst (tryGetGitOrigin (sample_env ?g [] None) (Some ''/home/dev/repo'') fresh) = Inr ?g"
    by (simp add: fresh_def)
  from origin_override_then_git [where e = "sample_env ?g [] (Some '' '')" and a = "'' ''"
      and perr = "Error ''Invalid url.''" and absRepoPath = None
      and w = fresh, THEN conjunct2, THEN mp, OF blank, THEN conjunct2]
    s(2) parse(2)
  have third: "trace (snd (tryGetGitOrigin (sample_env ?g [] (Some '' '')) None fresh))
                  = [git [''config'', ''--get'', ''remote.origin.url''] (Some ''.'')]
      \<and> fst (tryGetGitOrigin (sample_env ?g [] (Some '' '')) None fresh) = Inr ?g"
    by (simp add: fresh_def)
  from first second third show ?thesis by (simp add: sample_env_sel sample_parse_def)
qed

section \<open>The git operations, one spawn at a time\<close>

lemma getCurrentBranch_run:
  "getCurrentBranch e d w =
     (let c = git [''branch'', ''--show-current'']
                (Some (path_resolve e (case d of None \<Rightarrow> process_cwd e | Some dir \<Rightarrow> dir))) in
      case shell e (trace w) c of
        Inr branch \<Rightarrow> (Inr branch, w @ [Spawned c])
      | Inl err \<Rightarrow>
          (Inl (Error (''Unable to parse current branch from git client. Ensure '' @ sq
                       @ ''git branch --show-current'' @ sq @ '' returns a proper response'')),
           w @ [Spawned c, Logged Err err]))"
  by (simp add: getCurrentBranch_def exec_def logger_def Let_def split: sum.splits option.splits)

lemma checkoutBranch_run:
  "checkoutBranch e b create w =
     (let c = git (if create then [''checkout'', ''-b'', b] else [''checkout'', b]) None in
      case shell e (trace w) c of
        Inr out \<Rightarrow> (Inr (), w @ [Spawned c])
      | Inl err \<Rightarrow>
          (Inl (Error (''Unable to checkout git branch '' @ b @ '': '' @ err)), w @ [Spawned c]))"
  by (simp add: checkoutBranch_def exec_def Let_def split: sum.splits)

lemma deleteBranch_run:
  "deleteBranch e b w =
     (let c = git [''branch'', ''-D'', b] None in
      case shell e (trace w) c of
        Inr out \<Rightarrow> (Inr (), w @ [Spawned c])
      | Inl err \<Rightarrow>
          (Inl (Error (''Unable to delete git branch '' @ b @ '': '' @ err)), w @ [Spawned c]))"
  by (simp add: deleteBranch_def exec_def Let_def split: sum.splits)

lemma pushBranch_run:
  "pushBranch e b w =
     (let c = git [''push'', ''-u'', ''origin'', b] None in
      case shell e (trace w) c of
        Inr out \<Rightarrow> (Inr (), w @ [Spawned c])
      | Inl err \<Rightarrow>
          (Inl (Error (''Unable to push git branch '' @ b @ '': '' @ err)), w @ [Spawned c]))"
  by (simp add: pushBranch_def exec_def Let_def split: sum.splits)

lemma commitPath_run:
  "commitPath e b paths w =
     (let add = git (''add'' # paths) None;
          commit = git [''commit'', ''-m'', ''Adding new service: '' @ b] None in
      case shell e (trace w) add of
        Inl err \<Rightarrow> (Inl (commit_failed b paths err), w @ [Spawned add])
      | Inr out \<Rightarrow>
          (case shell e (trace w @ [add]) commit of
             Inl err \<Rightarrow> (Inl (commit_failed b paths err), w @ [Spawned add, Spawned commit])
           | Inr out' \<Rightarrow> (Inr (), w @ [Spawned add, Spawned commit])))"
  by (simp add: commitPath_def exec_def Let_def split: sum.splits)

lemma trace_link_lines [simp]: "trace (link_lines e u) = []"
  by (cases "GitUrlParse e u") (simp_all add: link_lines_def)

lemmas run_simps =
  steps_def andThen_def catchThrow_def getCurrentBranch_run checkoutBranch_run commitPath_run
  pushBranch_run getOriginUrl_run getPullRequestLink_run deleteBranch_run logger_def Let_def

text \<open>
  The whole run of the \<open>try\<close> block of the orchestrator, as a chain of the answers of
  git and of the parser.
\<close>

lemma steps_run:
  "steps e new paths w =
     (let t = trace w;
          c1 = git [''branch'', ''--show-current''] (Some (path_resolve e (process_cwd e)));
          c2 = git [''checkout'', ''-b'', new] None;
          c3 = git (''add'' # paths) None;
          c4 = git [''commit'', ''-m'', ''Adding new service: '' @ new] None;
          c5 = git [''push'', ''-u'', ''origin'', new] None;
          c6 = git [''config'', ''--get'', ''remote.origin.url''] (Some ''.'');
          c8 = git [''branch'', ''-D'', new] None;
          manually = ''. Changes will have to be manually committed. '' in
      case shell e t c1 of
        Inl err \<Rightarrow>
          (Inl (Error (''Cannot fetch current branch. Changes will have to be manually committed. ''
                    @ ''Error: Unable to parse current branch from git client. Ensure '' @ sq
                    @ ''git branch --show-current'' @ sq @ '' returns a proper response'')),
             w @ [Spawned c1, Logged Err err])
      | Inr cur \<Rightarrow>
      (case shell e (t @ [c1]) c2 of
        Inl err \<Rightarrow>
          (Inl (Error (''Cannot create and checkout new branch '' @ new @ manually
                    @ ''Error: Unable to checkout git branch '' @ new @ '': '' @ err)),
             w @ [Spawned c1, Spawned c2])
      | Inr o2 \<Rightarrow>
      (case shell e (t @ [c1, c2]) c3 of
        Inl err \<Rightarrow>
          (Inl (Error (''Cannot commit changes in '' @ join '', '' paths @ '' to branch '' @ new
                    @ manually @ ''Error: Unable to commit changes in '' @ join '','' paths
                    @ '' to git branch '' @ new @ '': '' @ err)),
             w @ [Spawned c1, Spawned c2, Spawned c3])
      | Inr o3 \<Rightarrow>
      (case shell e (t @ [c1, c2, c3]) c4 of
        Inl err \<Rightarrow>
          (Inl (Error (''Cannot commit changes in '' @ join '', '' paths @ '' to branch '' @ new
                    @ manually @ ''Error: Unable to commit changes in '' @ join '','' paths
                    @ '' to git branch '' @ new @ '': '' @ err)),
             w @ [Spawned c1, Spawned c2, Spawned c3, Spawned c4])
      | Inr o4 \<Rightarrow>
      (case shell e (t @ [c1, c2, c3, c4]) c5 of
        Inl err \<Rightarrow>
          (Inl (Error (''Cannot push branch '' @ new @ manually
                    @ ''Error: Unable to push git branch '' @ new @ '': '' @ err)),
             w @ [Spawned c1, Spawned c2, Spawned c3, Spawned c4, Spawned c5])
      | Inr o5 \<Rightarrow>
      (case shell e (t @ [c1, c2, c3, c4, c5]) c6 of
        Inl err \<Rightarrow>
          (Inl (Error (''Unable to get git origin URL: '' @ err)),
             w @ [Spawned c1, Spawned c2, Spawned c3, Spawned c4, Spawned c5, Spawned c6])
      | Inr originUrl \<Rightarrow>
      (case safeGitUrlForLogging e originUrl of
        Inl err \<Rightarrow>
          (Inl (Error (''Unable to get git origin URL: '' @ toString err)),
             w @ [Spawned c1, Spawned c2, Spawned c3, Spawned c4, Spawned c5, Spawned c6])
      | Inr safeUrl \<Rightarrow>
      (case link_of e cur new originUrl of
        Inl err \<Rightarrow>
          (Inl (Error (''Could not create link for Pull Request. It will need to be done manually. ''
                    @ toString err)),
             w @ [Spawned c1, Spawned c2, Spawned c3, Spawned c4, Spawned c5, Spawned c6,
                  Logged Debug (''Got git origin url '' @ safeUrl)]
               @ link_lines e originUrl)
      | Inr link \<Rightarrow>
      (case shell e (t @ [c1, c2, c3, c4, c5, c6]) (git [''checkout'', cur] None) of
        Inl err \<Rightarrow>
          (Inl (Error (''Cannot checkout original branch '' @ cur
                    @ ''. Clean up will need to be done manually. ''
                    @ ''Error: Unable to checkout git branch '' @ cur @ '': '' @ err)),
             w @ [Spawned c1, Spawned c2, Spawned c3, Spawned c4, Spawned c5, Spawned c6,
                  Logged Debug (''Got git origin url '' @ safeUrl)]
               @ link_lines e originUrl
               @ [Logged Info (''Link to create PR: '' @ link),
                  Spawned (git [''checkout'', cur] None)])
      | Inr o7 \<Rightarrow>
      (case shell e (t @ [c1, c2, c3, c4, c5, c6, git [''checkout'', cur] None]) c8 of
        Inl err \<Rightarrow>
          (Inl (Error (''Cannot delete new branch '' @ new
                    @ ''. Cleanup will need to be done manually. ''
                    @ ''Error: Unable to delete git branch '' @ new @ '': '' @ err)),
             w @ [Spawned c1, Spawned c2, Spawned c3, Spawned c4, Spawned c5, Spawned c6,
                  Logged Debug (''Got git origin url '' @ safeUrl)]
               @ link_lines e originUrl
               @ [Logged Info (''Link to create PR: '' @ link),
                  Spawned (git [''checkout'', cur] None), Spawned c8])
      | Inr o8 \<Rightarrow>
          (Inr (),
           w @ [Spawned c1, Spawned c2, Spawned c3, Spawned c4, Spawned c5, Spawned c6,
                Logged Debug (''Got git origin url '' @ safeUrl)]
             @ link_lines e originUrl
             @ [Logged Info (''Link to create PR: '' @ link),
                Spawned (git [''checkout'', cur] None), Spawned c8])))))))))))"
  by (simp add: run_simps commit_failed_def split: sum.splits)

section \<open>The orchestrator: order and stopping\<close>

text \<open>
  C1, as stated, fails. The origin URL is read after the push, not first: the first
  command is \<open>git branch --show-current\<close>. When a step fails nothing is logged and
  nothing is rolled back: with \<open>git push\<close> rejected the run ends on the new branch,
  after five commands and no log line.
\<close>

theorem workflow_order_counterexample:
  "checkoutCommitPushCreatePRLink
     (sample_env ''https://dev.azure.com/contoso/shop/_git/cart'' [] None)
     ''feature'' [''cart/''] fresh
   = (Inr (),
      [Spawned (git [''branch'', ''--show-current''] (Some ''/home/dev/repo'')),
       Spawned (git [''checkout'', ''-b'', ''feature''] None),
       Spawned (git [''add'', ''cart/''] None),
       Spawned (git [''commit'', ''-m'', ''Adding new service: feature''] None),
       Spawned (git [''push'', ''-u'', ''origin'', ''feature''] None),
       Spawned (git [''config'', ''--get'', ''remote.origin.url''] (Some ''.'')),
       Logged Debug ''Got git origin url https://dev.azure.com/contoso/shop/_git/cart'',
       Logged Debug ''azure devops repo found.'',
       Logged Info (''Link to create PR: https://dev.azure.com/contoso/shop/_git/cart''
                    @ ''/pullrequestcreate?sourceRef=feature&targetRef=master''),
       Spawned (git [''checkout'', ''master''] None),
       Spawned (git [''branch'', ''-D'', ''feature''] None)])
   \<and> checkoutCommitPushCreatePRLink
       (sample_env ''https://dev.azure.com/contoso/shop/_git/cart'' [''push''] None)
       ''feature'' [''cart/''] fresh
     = (Inl (ErrorChain GIT_OPS_ERR ''git-checkout-commit-push-create-PR-link''
               (Some (Error (''Cannot push branch feature. ''
                             @ ''Changes will have to be manually committed. ''
                             @ ''Error: Unable to push git branch feature: ''
                             @ ''fatal: git push failed'')))),
        [Spawned (git [''branch'', ''--show-current''] (Some ''/home/dev/repo'')),
         Spawned (git [''checkout'', ''-b'', ''feature''] None),
         Spawned (git [''add'', ''cart/''] None),
         Spawned (git [''commit'', ''-m'', ''Adding new service: feature''] None),
         Spawned (git [''push'', ''-u'', ''origin'', ''feature''] None)])"
  by (simp add: checkoutCommitPushCreatePRLink_def steps_run Let_def fresh_def sample_env_sel
      sample_shell_def git_def link_of_def link_lines_def getPullRequestLink_def
      pullRequestLink_body_def safeGitUrlForLogging_def sample_parse_def logger_def)

text \<open>
  C1, amended. A run awaits its steps in this order, each one only when every earlier one
  has succeeded: read the current branch, create and check out the new branch, add the
  pathspecs, commit, push, read the origin URL, parse it and build the pull-request link,
  log the link, check out the original branch, delete the new branch. At the first step
  that fails the run stops: it spawns no later command, rolls nothing back, and throws
  what \<open>build\<close> makes of \<open>GIT_OPS_ERR\<close> and the error of that step. The statement
  gives, for every way the answers of git and of the parser can fall, what is returned
  or thrown and the commands and log lines of the run in their order.
\<close>

theorem workflow_order_and_stop:
  "checkoutCommitPushCreatePRLink e new paths w =
     (let t = trace w;
          c1 = git [''branch'', ''--show-current''] (Some (path_resolve e (process_cwd e)));
          c2 = git [''checkout'', ''-b'', new] None;
          c3 = git (''add'' # paths) None;
          c4 = git [''commit'', ''-m'', ''Adding new service: '' @ new] None;
          c5 = git [''push'', ''-u'', ''origin'', new] None;
          c6 = git [''config'', ''--get'', ''remote.origin.url''] (Some ''.'');
          c8 = git [''branch'', ''-D'', new] None;
          manually = ''. Changes will have to be manually committed. '' in
      case shell e t c1 of
        Inl err \<Rightarrow>
          rethrown
            (Error (''Cannot fetch current branch. Changes will have to be manually committed. ''
                    @ ''Error: Unable to parse current branch from git client. Ensure '' @ sq
                    @ ''git branch --show-current'' @ sq @ '' returns a proper response''))
            (w @ [Spawned c1, Logged Err err])
      | Inr cur \<Rightarrow>
      (case shell e (t @ [c1]) c2 of
        Inl err \<Rightarrow>
          rethrown
            (Error (''Cannot create and checkout new branch '' @ new @ manually
                    @ ''Error: Unable to checkout git branch '' @ new @ '': '' @ err))
            (w @ [Spawned c1, Spawned c2])
      | Inr o2 \<Rightarrow>
      (case shell e (t @ [c1, c2]) c3 of
        Inl err \<Rightarrow>
          rethrown
            (Error (''Cannot commit changes in '' @ join '', '' paths @ '' to branch '' @ new
                    @ manually @ ''Error: Unable to commit changes in '' @ join '','' paths
                    @ '' to git branch '' @ new @ '': '' @ err))
            (w @ [Spawned c1, Spawned c2, Spawned c3])
      | Inr o3 \<Rightarrow>
      (case shell e (t @ [c1, c2, c3]) c4 of
        Inl err \<Rightarrow>
          rethrown
            (Error (''Cannot commit changes in '' @ join '', '' paths @ '' to branch '' @ new
                    @ manually @ ''Error: Unable to commit changes in '' @ join '','' paths
                    @ '' to git branch '' @ new @ '': '' @ err))
            (w @ [Spawned c1, Spawned c2, Spawned c3, Spawned c4])
      | Inr o4 \<Rightarrow>
      (case shell e (t @ [c1, c2, c3, c4]) c5 of
        Inl err \<Rightarrow>
          rethrown
            (Error (''Cannot push branch '' @ new @ manually
                    @ ''Error: Unable to push git branch '' @ new @ '': '' @ err))
            (w @ [Spawned c1, Spawned c2, Spawned c3, Spawned c4, Spawned c5])
      | Inr o5 \<Rightarrow>
      (case shell e (t @ [c1, c2, c3, c4, c5]) c6 of
        Inl err \<Rightarrow>
          rethrown (Error (''Unable to get git origin URL: '' @ err))
            (w @ [Spawned c1, Spawned c2, Spawned c3, Spawned c4, Spawned c5, Spawned c6])
      | Inr originUrl \<Rightarrow>
      (case safeGitUrlForLogging e originUrl of
        Inl err \<Rightarrow>
          rethrown (Error (''Unable to get git origin URL: '' @ toString err))
            (w @ [Spawned c1, Spawned c2, Spawned c3, Spawned c4, Spawned c5, Spawned c6])
      | Inr safeUrl \<Rightarrow>
      (case link_of e cur new originUrl of
        Inl err \<Rightarrow>
          rethrown
            (Error (''Could not create link for Pull Request. It will need to be done manually. ''
                    @ toString err))
            (w @ [Spawned c1, Spawned c2, Spawned c3, Spawned c4, Spawned c5, Spawned c6,
                  Logged Debug (''Got git origin url '' @ safeUrl)]
               @ link_lines e originUrl)
      | Inr link \<Rightarrow>
      (case shell e (t @ [c1, c2, c3, c4, c5, c6]) (git [''checkout'', cur] None) of
        Inl err \<Rightarrow>
          rethrown
            (Error (''Cannot checkout original branch '' @ cur
                    @ ''. Clean up will need to be done manually. ''
                    @ ''Error: Unable to checkout git branch '' @ cur @ '': '' @ err))
            (w @ [Spawned c1, Spawned c2, Spawned c3, Spawned c4, Spawned c5, Spawned c6,
                  Logged Debug (''Got git origin url '' @ safeUrl)]
               @ link_lines e originUrl
               @ [Logged Info (''Link to create PR: '' @ link),
                  Spawned (git [''checkout'', cur] None)])
      | Inr o7 \<Rightarrow>
      (case shell e (t @ [c1, c2, c3, c4, c5, c6, git [''checkout'', cur] None]) c8 of
        Inl err \<Rightarrow>
          rethrown
            (Error (''Cannot delete new branch '' @ new
                    @ ''. Cleanup will need to be done manually. ''
                    @ ''Error: Unable to delete git branch '' @ new @ '': '' @ err))
            (w @ [Spawned c1, Spawned c2, Spawned c3, Spawned c4, Spawned c5, Spawned c6,
                  Logged Debug (''Got git origin url '' @ safeUrl)]
               @ link_lines e originUrl
               @ [Logged Info (''Link to create PR: '' @ link),
                  Spawned (git [''checkout'', cur] None), Spawned c8])
      | Inr o8 \<Rightarrow>
          (Inr (),
           w @ [Spawned c1, Spawned c2, Spawned c3, Spawned c4, Spawned c5, Spawned c6,
                Logged Debug (''Got git origin url '' @ safeUrl)]
             @ link_lines e originUrl
             @ [Logged Info (''Link to create PR: '' @ link),
                Spawned (git [''checkout'', cur] None), Spawned c8])))))))))))"
  by (simp add: checkoutCommitPushCreatePRLink_def steps_run rethrown_def Let_def
      split: sum.splits)

theorem workflow_order_and_stop_witness:
  "checkoutCommitPushCreatePRLink
     (sample_env ''https://dev.azure.com/contoso/shop/_git/cart'' [] None)
     ''feature'' [''cart/''] fresh
   = (Inr (),
      [Spawned (git [''branch'', ''--show-current''] (Some ''/home/dev/repo'')),
       Spawned (git [''checkout'', ''-b'', ''feature''] None),
       Spawned (git [''add'', ''cart/''] None),
       Spawned (git [''commit'', ''-m'', ''Adding new service: feature''] None),
       Spawned (git [''push'', ''-u'', ''origin'', ''feature''] None),
       Spawned (git [''config'', ''--get'', ''remote.origin.url''] (Some ''.'')),
       Logged Debug ''Got git origin url https://dev.azure.com/contoso/shop/_git/cart'',
       Logged Debug ''azure devops repo found.'',
       Logged Info (''Link to create PR: https://dev.azure.com/contoso/shop/_git/cart''
                    @ ''/pullrequestcreate?sourceRef=feature&targetRef=master''),
       Spawned (git [''checkout'', ''master''] None),
       Spawned (git [''branch'', ''-D'', ''feature''] None)])
   \<and> checkoutCommitPushCreatePRLink
       (sample_env ''https://dev.azure.com/contoso/shop/_git/cart'' [''checkout'', ''master'']
          None)
       ''feature'' [''cart/''] fresh
     = rethrown
         (Error (''Cannot checkout original branch master. ''
                 @ ''Clean up will need to be done manually. ''
                 @ ''Error: Unable to checkout git branch master: ''
                 @ ''fatal: git checkout master failed''))
         [Spawned (git [''branch'', ''--show-current''] (Some ''/home/dev/repo'')),
          Spawned (git [''checkout'', ''-b'', ''feature''] None),
          Spawned (git [''add'', ''cart/''] None),
          Spawned (git [''commit'', ''-m'', ''Adding new service: feature''] None),
          Spawned (git [''push'', ''-u'', ''origin'', ''feature''] None),
          Spawned (git [''config'', ''--get'', ''remote.origin.url''] (Some ''.'')),
          Logged Debug ''Got git origin url https://dev.azure.com/contoso/shop/_git/cart'',
          Logged Debug ''azure devops repo found.'',
          Logged Info (''Link to create PR: https://dev.azure.com/contoso/shop/_git/cart''
                       @ ''/pullrequestcreate?sourceRef=feature&targetRef=master''),
          Spawned (git [''checkout'', ''master''] None)]
   \<and> checkoutCommitPushCreatePRLink
       (sample_env ''https://dev.azure.com/contoso/shop/_git/cart'' [''add''] None)
       ''feature'' [''cart/'', ''bedrock.yaml''] fresh
     = rethrown
         (Error (''Cannot commit changes in cart/, bedrock.yaml to branch feature. ''
                 @ ''Changes will have to be manually committed. ''
                 @ ''Error: Unable to commit changes in cart/,bedrock.yaml to git branch ''
                 @ ''feature: fatal: git add failed''))
         [Spawned (git [''branch'', ''--show-current''] (Some ''/home/dev/repo'')),
          Spawned (git [''checkout'', ''-b'', ''feature''] None),
          Spawned (git [''add'', ''cart/'', ''bedrock.yaml''] None)]"
  by (simp add: workflow_order_and_stop Let_def fresh_def sample_env_sel sample_shell_def
      git_def link_of_def link_lines_def getPullRequestLink_def pullRequestLink_body_def
      safeGitUrlForLogging_def sample_parse_def logger_def)

section \<open>Failures of the git operations\<close>

text \<open>
  C6, as stated, fails twice. In the orchestrator the reading of the origin URL is the one
  step without a \<open>.catch\<close> of its own: when \<open>git config\<close> is rejected, what is
  thrown holds only the message of \<open>getOriginUrl\<close>, which tells of no remedy, while
  every other step adds that the work has to be done manually. And \<open>getCurrentBranch\<close>
  does not wrap the failure: it logs the cause and throws a message of its own that does
  not hold it.
\<close>

theorem failure_messages_counterexample:
  "checkoutCommitPushCreatePRLink
     (sample_env ''https://dev.azure.com/contoso/shop/_git/cart'' [''config''] None)
     ''feature'' [''cart/''] fresh
   = rethrown (Error ''Unable to get git origin URL: fatal: git config failed'')
       [Spawned (git [''branch'', ''--show-current''] (Some ''/home/dev/repo'')),
        Spawned (git [''checkout'', ''-b'', ''feature''] None),
        Spawned (git [''add'', ''cart/''] None),
        Spawned (git [''commit'', ''-m'', ''Adding new service: feature''] None),
        Spawned (git [''push'', ''-u'', ''origin'', ''feature''] None),
        Spawned (git [''config'', ''--get'', ''remote.origin.url''] (Some ''.''))]
   \<and> \<not> str_includes ''Unable to get git origin URL: fatal: git config failed'' ''manual''
   \<and> getCurrentBranch
       (sample_env ''https://dev.azure.com/contoso/shop/_git/cart'' [''branch''] None)
       None fresh
     = (Inl (Error (''Unable to parse current branch from git client. Ensure '' @ sq
                    @ ''git branch --show-current'' @ sq @ '' returns a proper response'')),
        [Spawned (git [''branch'', ''--show-current''] (Some ''/home/dev/repo'')),
         Logged Err ''fatal: git branch failed''])
   \<and> \<not> str_includes
         (''Unable to parse current branch from git client. Ensure '' @ sq
          @ ''git branch --show-current'' @ sq @ '' returns a proper response'')
         ''fatal: git branch failed''"
  by (simp add: checkoutCommitPushCreatePRLink_def steps_run rethrown_def getCurrentBranch_run
      Let_def fresh_def sample_env_sel sample_shell_def git_def sq_def)

text \<open>
  C6, amended. When the git command of \<open>getCurrentBranch\<close>, \<open>checkoutBranch\<close>,
  \<open>commitPath\<close>, \<open>pushBranch\<close> or \<open>getOriginUrl\<close> is rejected, the operation
  spawns nothing more (the command is not tried again) and throws a new \<open>Error\<close> whose
  message names the operation and its arguments; all but \<open>getCurrentBranch\<close> append
  the cause to the message, \<open>getCurrentBranch\<close> logs the cause instead. In the
  orchestrator, when a step other than the reading of the origin URL fails after every
  earlier step has succeeded, the run stops there without spawning anything more, and
  throws what \<open>build\<close> makes of \<open>GIT_OPS_ERR\<close> and of a new \<open>Error\<close> whose
  message says that the changes have to be committed manually, or that the pull-request
  link or the clean-up has to be done manually, followed by the error of the step.
\<close>

theorem failures_are_wrapped_not_retried:
  "(shell e (trace w) (git [''branch'', ''--show-current''] (Some (path_resolve e (case d of None \<Rightarrow> process_cwd e | Some dir \<Rightarrow> dir)))) = Inl err
       \<longrightarrow> getCurrentBranch e d w =
             (Inl (Error (''Unable to parse current branch from git client. Ensure '' @ sq
               @ ''git branch --show-current'' @ sq @ '' returns a proper response'')),
              w @ [Spawned (git [''branch'', ''--show-current''] (Some (path_resolve e (case d of None \<Rightarrow> process_cwd e | Some dir \<Rightarrow> dir)))), Logged Err err]))
   \<and> (shell e (trace w) (git (if create then [''checkout'', ''-b'', b] else [''checkout'', b]) None) = Inl err
       \<longrightarrow> checkoutBranch e b create w =
             (Inl (Error (''Unable to checkout git branch '' @ b @ '': '' @ err)),
              w @ [Spawned (git (if create then [''checkout'', ''-b'', b] else [''checkout'', b]) None)]))
   \<and> (shell e (trace w) (git (''add'' # paths) None) = Inl err
       \<longrightarrow> commitPath e b paths w =
             (Inl (Error (''Unable to commit changes in '' @ join '','' paths
               @ '' to git branch '' @ b @ '': '' @ err)),
              w @ [Spawned (git (''add'' # paths) None)]))
   \<and> (shell e (trace w) (git (''add'' # paths) None) = Inr out
       \<and> shell e (trace w @ [git (''add'' # paths) None]) (git [''commit'', ''-m'', ''Adding new service: '' @ b] None) = Inl err
       \<longrightarrow> commitPath e b paths w =
             (Inl (Error (''Unable to commit changes in '' @ join '','' paths
               @ '' to git branch '' @ b @ '': '' @ err)),
              w @ [Spawned (git (''add'' # paths) None), Spawned (git [''commit'', ''-m'', ''Adding new service: '' @ b] None)]))
   \<and> (shell e (trace w) (git [''push'', ''-u'', ''origin'', b] None) = Inl err
       \<longrightarrow> pushBranch e b w =
             (Inl (Error (''Unable to push git branch '' @ b @ '': '' @ err)),
              w @ [Spawned (git [''push'', ''-u'', ''origin'', b] None)]))
   \<and> (shell e (trace w) (git [''config'', ''--get'', ''remote.origin.url''] (Some (case p of None \<Rightarrow> ''.'' | Some dir \<Rightarrow> dir))) = Inl err
       \<longrightarrow> getOriginUrl e p w =
             (Inl (Error (''Unable to get git origin URL: '' @ err)),
              w @ [Spawned (git [''config'', ''--get'', ''remote.origin.url''] (Some (case p of None \<Rightarrow> ''.'' | Some dir \<Rightarrow> dir)))]))
   \<and> (shell e (trace w) (plan e cur b paths ! 0) = Inl err
       \<longrightarrow> checkoutCommitPushCreatePRLink e b paths w =
             rethrown
               (Error (''Cannot fetch current branch. Changes will have to be manually committed. ''
                 @ ''Error: Unable to parse current branch from git client. Ensure '' @ sq
                 @ ''git branch --show-current'' @ sq @ '' returns a proper response''))
               (w @ [Spawned (plan e cur b paths ! 0), Logged Err err]))
   \<and> (accepts e (trace w) (take 1 (plan e cur b paths)) [cur]
       \<and> shell e (trace w @ take 1 (plan e cur b paths)) (plan e cur b paths ! 1) = Inl err
       \<longrightarrow> checkoutCommitPushCreatePRLink e b paths w =
             rethrown
               (Error (''Cannot create and checkout new branch '' @ b @ ''. Changes will have to be manually committed. ''
                 @ ''Error: Unable to checkout git branch '' @ b @ '': '' @ err))
               (w @ map Spawned (take 2 (plan e cur b paths))))
   \<and> (accepts e (trace w) (take 2 (plan e cur b paths)) [cur, o2]
       \<and> shell e (trace w @ take 2 (plan e cur b paths)) (plan e cur b paths ! 2) = Inl err
       \<longrightarrow> checkoutCommitPushCreatePRLink e b paths w =
             rethrown
               (Error (''Cannot commit changes in '' @ join '', '' paths @ '' to branch '' @ b @ ''. Changes will have to be manually committed. ''
                 @ ''Error: Unable to commit changes in '' @ join '','' paths @ '' to git branch '' @ b @ '': '' @ err))
               (w @ map Spawned (take 3 (plan e cur b paths))))
   \<and> (accepts e (trace w) (take 3 (plan e cur b paths)) [cur, o2, o3]
       \<and> shell e (trace w @ take 3 (plan e cur b paths)) (plan e cur b paths ! 3) = Inl err
       \<longrightarrow> checkoutCommitPushCreatePRLink e b paths w =
             rethrown
               (Error (''Cannot commit changes in '' @ join '', '' paths @ '' to branch '' @ b @ ''. Changes will have to be manually committed. ''
                 @ ''Error: Unable to commit changes in '' @ join '','' paths @ '' to git branch '' @ b @ '': '' @ err))
               (w @ map Spawned (take 4 (plan e cur b paths))))
   \<and> (accepts e (trace w) (take 4 (plan e cur b paths)) [cur, o2, o3, o4]
       \<and> shell e (trace w @ take 4 (plan e cur b paths)) (plan e cur b paths ! 4) = Inl err
       \<longrightarrow> checkoutCommitPushCreatePRLink e b paths w =
             rethrown
               (Error (''Cannot push branch '' @ b @ ''. Changes will have to be manually committed. ''
                 @ ''Error: Unable to push git branch '' @ b @ '': '' @ err))
               (w @ map Spawned (take 5 (plan e cur b paths))))
   \<and> (accepts e (trace w) (take 6 (plan e cur b paths)) [cur, o2, o3, o4, o5, originUrl]
       \<and> safeGitUrlForLogging e originUrl = Inr s
       \<and> link_of e cur b originUrl = Inl lerr
       \<longrightarrow> checkoutCommitPushCreatePRLink e b paths w =
             rethrown
               (Error (''Could not create link for Pull Request. It will need to be done manually. ''
                 @ toString lerr))
               (w @ map Spawned (take 6 (plan e cur b paths)) @ [Logged Debug (''Got git origin url '' @ s)] @ link_lines e originUrl))
   \<and> (accepts e (trace w) (take 6 (plan e cur b paths)) [cur, o2, o3, o4, o5, originUrl]
       \<and> safeGitUrlForLogging e originUrl = Inr s
       \<and> link_of e cur b originUrl = Inr link
       \<and> shell e (trace w @ take 6 (plan e cur b paths)) (plan e cur b paths ! 6) = Inl err
       \<longrightarrow> checkoutCommitPushCreatePRLink e b paths w =
             rethrown
               (Error (''Cannot checkout original branch '' @ cur
                 @ ''. Clean up will need to be done manually. ''
                 @ ''Error: Unable to checkout git branch '' @ cur @ '': '' @ err))
               (w @ map Spawned (take 6 (plan e cur b paths)) @ [Logged Debug (''Got git origin url '' @ s)] @ link_lines e originUrl
                @ [Logged Info (''Link to create PR: '' @ link), Spawned (plan e cur b paths ! 6)]))
   \<and> (accepts e (trace w) (take 6 (plan e cur b paths)) [cur, o2, o3, o4, o5, originUrl]
       \<and> safeGitUrlForLogging e originUrl = Inr s
       \<and> link_of e cur b originUrl = Inr link
       \<and> shell e (trace w @ take 6 (plan e cur b paths)) (plan e cur b paths ! 6) = Inr o7
       \<and> shell e (trace w @ take 7 (plan e cur b paths)) (plan e cur b paths ! 7) = Inl err
       \<longrightarrow> checkoutCommitPushCreatePRLink e b paths w =
             rethrown
               (Error (''Cannot delete new branch '' @ b
                 @ ''. Cleanup will need to be done manually. ''
                 @ ''Error: Unable to delete git branch '' @ b @ '': '' @ err))
               (w @ map Spawned (take 6 (plan e cur b paths)) @ [Logged Debug (''Got git origin url '' @ s)] @ link_lines e originUrl
                @ [Logged Info (''Link to create PR: '' @ link), Spawned (plan e cur b paths ! 6),
                   Spawned (plan e cur b paths ! 7)]))"
proof (intro conjI impI)
  assume "shell e (trace w) (git [''branch'', ''--show-current''] (Some (path_resolve e (case d of None \<Rightarrow> process_cwd e | Some dir \<Rightarrow> dir)))) = Inl err"
  then show "getCurrentBranch e d w =
               (Inl (Error (''Unable to parse current branch from git client. Ensure '' @ sq
                 @ ''git branch --show-current'' @ sq @ '' returns a proper response'')),
                w @ [Spawned (git [''branch'', ''--show-current''] (Some (path_resolve e (case d of None \<Rightarrow> process_cwd e | Some dir \<Rightarrow> dir)))), Logged Err err])"
    by (simp add: getCurrentBranch_run checkoutBranch_run commitPath_run pushBranch_run
        getOriginUrl_run commit_failed_def Let_def)
next
  assume "shell e (trace w) (git (if create then [''checkout'', ''-b'', b] else [''checkout'', b]) None) = Inl err"
  then show "checkoutBranch e b create w =
               (Inl (Error (''Unable to checkout git branch '' @ b @ '': '' @ err)),
                w @ [Spawned (git (if create then [''checkout'', ''-b'', b] else [''checkout'', b]) None)])"
    by (simp add: getCurrentBranch_run checkoutBranch_run commitPath_run pushBranch_run
        getOriginUrl_run commit_failed_def Let_def)
next
  assume "shell e (trace w) (git (''add'' # paths) None) = Inl err"
  then show "commitPath e b paths w =
               (Inl (Error (''Unable to commit changes in '' @ join '','' paths
                 @ '' to git branch '' @ b @ '': '' @ err)),
                w @ [Spawned (git (''add'' # paths) None)])"
    by (simp add: getCurrentBranch_run checkoutBranch_run commitPath_run pushBranch_run
        getOriginUrl_run commit_failed_def Let_def)
next
  assume "shell e (trace w) (git (''add'' # paths) None) = Inr out
            \<and> shell e (trace w @ [git (''add'' # paths) None]) (git [''commit'', ''-m'', ''Adding new service: '' @ b] None) = Inl err"
  then show "commitPath e b paths w =
               (Inl (Error (''Unable to commit changes in '' @ join '','' paths
                 @ '' to git branch '' @ b @ '': '' @ err)),
                w @ [Spawned (git (''add'' # paths) None), Spawned (git [''commit'', ''-m'', ''Adding new service: '' @ b] None)])"
    by (simp add: getCurrentBranch_run checkoutBranch_run commitPath_run pushBranch_run
        getOriginUrl_run commit_failed_def Let_def)
next
  assume "shell e (trace w) (git [''push'', ''-u'', ''origin'', b] None) = Inl err"
  then show "pushBranch e b w =
               (Inl (Error (''Unable to push git branch '' @ b @ '': '' @ err)),
                w @ [Spawned (git [''push'', ''-u'', ''origin'', b] None)])"
    by (simp add: getCurrentBranch_run checkoutBranch_run commitPath_run pushBranch_run
        getOriginUrl_run commit_failed_def Let_def)
next
  assume "shell e (trace w) (git [''config'', ''--get'', ''remote.origin.url''] (Some (case p of None \<Rightarrow> ''.'' | Some dir \<Rightarrow> dir))) = Inl err"
  then show "getOriginUrl e p w =
               (Inl (Error (''Unable to get git origin URL: '' @ err)),
                w @ [Spawned (git [''config'', ''--get'', ''remote.origin.url''] (Some (case p of None \<Rightarrow> ''.'' | Some dir \<Rightarrow> dir)))])"
    by (simp add: getCurrentBranch_run checkoutBranch_run commitPath_run pushBranch_run
        getOriginUrl_run commit_failed_def Let_def)
next
  assume "shell e (trace w) (plan e cur b paths ! 0) = Inl err"
  then show "checkoutCommitPushCreatePRLink e b paths w =
               rethrown
                 (Error (''Cannot fetch current branch. Changes will have to be manually committed. ''
                   @ ''Error: Unable to parse current branch from git client. Ensure '' @ sq
                   @ ''git branch --show-current'' @ sq @ '' returns a proper response''))
                 (w @ [Spawned (plan e cur b paths ! 0), Logged Err err])"
    by (simp add: checkoutCommitPushCreatePRLink_def steps_run rethrown_def plan_def Let_def)
next
  assume "accepts e (trace w) (take 1 (plan e cur b paths)) [cur]
            \<and> shell e (trace w @ take 1 (plan e cur b paths)) (plan e cur b paths ! 1) = Inl err"
  then show "checkoutCommitPushCreatePRLink e b paths w =
               rethrown
                 (Error (''Cannot create and checkout new branch '' @ b @ ''. Changes will have to be manually committed. ''
                   @ ''Error: Unable to checkout git branch '' @ b @ '': '' @ err))
                 (w @ map Spawned (take 2 (plan e cur b paths)))"
    by (simp add: checkoutCommitPushCreatePRLink_def steps_run rethrown_def plan_def Let_def)
next
  assume "accepts e (trace w) (take 2 (plan e cur b paths)) [cur, o2]
            \<and> shell e (trace w @ take 2 (plan e cur b paths)) (plan e cur b paths ! 2) = Inl err"
  then show "checkoutCommitPushCreatePRLink e b paths w =
               rethrown
                 (Error (''Cannot commit changes in '' @ join '', '' paths @ '' to branch '' @ b @ ''. Changes will have to be manually committed. ''
                   @ ''Error: Unable to commit changes in '' @ join '','' paths @ '' to git branch '' @ b @ '': '' @ err))
                 (w @ map Spawned (take 3 (plan e cur b paths)))"
    by (simp add: checkoutCommitPushCreatePRLink_def steps_run rethrown_def plan_def Let_def)
next
  assume "accepts e (trace w) (take 3 (plan e cur b paths)) [cur, o2, o3]
            \<and> shell e (trace w @ take 3 (plan e cur b paths)) (plan e cur b paths ! 3) = Inl err"
  then show "checkoutCommitPushCreatePRLink e b paths w =
               rethrown
                 (Error (''Cannot commit changes in '' @ join '', '' paths @ '' to branch '' @ b @ ''. Changes will have to be manually committed. ''
                   @ ''Error: Unable to commit changes in '' @ join '','' paths @ '' to git branch '' @ b @ '': '' @ err))
                 (w @ map Spawned (take 4 (plan e cur b paths)))"
    by (simp add: checkoutCommitPushCreatePRLink_def steps_run rethrown_def plan_def Let_def)
next
  assume "accepts e (trace w) (take 4 (plan e cur b paths)) [cur, o2, o3, o4]
            \<and> shell e (trace w @ take 4 (plan e cur b paths)) (plan e cur b paths ! 4) = Inl err"
  then show "checkoutCommitPushCreatePRLink e b paths w =
               rethrown
                 (Error (''Cannot push branch '' @ b @ ''. Changes will have to be manually committed. ''
                   @ ''Error: Unable to push git branch '' @ b @ '': '' @ err))
                 (w @ map Spawned (take 5 (plan e cur b paths)))"
    by (simp add: checkoutCommitPushCreatePRLink_def steps_run rethrown_def plan_def Let_def)
next
  assume "accepts e (trace w) (take 6 (plan e cur b paths)) [cur, o2, o3, o4, o5, originUrl]
            \<and> safeGitUrlForLogging e originUrl = Inr s
            \<and> link_of e cur b originUrl = Inl lerr"
  then show "checkoutCommitPushCreatePRLink e b paths w =
               rethrown
                 (Error (''Could not create link for Pull Request. It will need to be done manually. ''
                   @ toString lerr))
                 (w @ map Spawned (take 6 (plan e cur b paths)) @ [Logged Debug (''Got git origin url '' @ s)] @ link_lines e originUrl)"
    by (simp add: checkoutCommitPushCreatePRLink_def steps_run rethrown_def plan_def Let_def)
next
  assume "accepts e (trace w) (take 6 (plan e cur b paths)) [cur, o2, o3, o4, o5, originUrl]
            \<and> safeGitUrlForLogging e originUrl = Inr s
            \<and> link_of e cur b originUrl = Inr link
            \<and> shell e (trace w @ take 6 (plan e cur b paths)) (plan e cur b paths ! 6) = Inl err"
  then show "checkoutCommitPushCreatePRLink e b paths w =
               rethrown
                 (Error (''Cannot checkout original branch '' @ cur
                   @ ''. Clean up will need to be done manually. ''
                   @ ''Error: Unable to checkout git branch '' @ cur @ '': '' @ err))
                 (w @ map Spawned (take 6 (plan e cur b paths)) @ [Logged Debug (''Got git origin url '' @ s)] @ link_lines e originUrl
                  @ [Logged Info (''Link to create PR: '' @ link), Spawned (plan e cur b paths ! 6)])"
    by (simp add: checkoutCommitPushCreatePRLink_def steps_run rethrown_def plan_def Let_def)
next
  assume "accepts e (trace w) (take 6 (plan e cur b paths)) [cur, o2, o3, o4, o5, originUrl]
            \<and> safeGitUrlForLogging e originUrl = Inr s
            \<and> link_of e cur b originUrl = Inr link
            \<and> shell e (trace w @ take 6 (plan e cur b paths)) (plan e cur b paths ! 6) = Inr o7
            \<and> shell e (trace w @ take 7 (plan e cur b paths)) (plan e cur b paths ! 7) = Inl err"
  then show "checkoutCommitPushCreatePRLink e b paths w =
               rethrown
                 (Error (''Cannot delete new branch '' @ b
                   @ ''. Cleanup will need to be done manually. ''
                   @ ''Error: Unable to delete git branch '' @ b @ '': '' @ err))
                 (w @ map Spawned (take 6 (plan e cur b paths)) @ [Logged Debug (''Got git origin url '' @ s)] @ link_lines e originUrl
                  @ [Logged Info (''Link to create PR: '' @ link), Spawned (plan e cur b paths ! 6),
                     Spawned (plan e cur b paths ! 7)])"
    by (simp add: checkoutCommitPushCreatePRLink_def steps_run rethrown_def plan_def Let_def)
qed

theorem failures_are_wrapped_not_retried_witness:
  "getCurrentBranch (sample_env ''https://dev.azure.com/contoso/shop/_git/cart'' [''branch''] None) None fresh =
      (Inl (Error (''Unable to parse current branch from git client. Ensure '' @ sq
        @ ''git branch --show-current'' @ sq @ '' returns a proper response'')),
       fresh @ [Spawned (git [''branch'', ''--show-current''] (Some (path_resolve (sample_env ''https://dev.azure.com/contoso/shop/_git/cart'' [''branch''] None) (case None of None \<Rightarrow> process_cwd (sample_env ''https://dev.azure.com/contoso/shop/_git/cart'' [''branch''] None) | Some dir \<Rightarrow> dir)))), Logged Err (''fatal: git '' @ join '' '' [''branch''] @ '' failed'')])
   \<and> checkoutBranch (sample_env ''https://dev.azure.com/contoso/shop/_git/cart'' [''checkout''] None) ''feature'' True fresh =
      (Inl (Error (''Unable to checkout git branch '' @ ''feature'' @ '': '' @ (''fatal: git '' @ join '' '' [''checkout''] @ '' failed''))),
       fresh @ [Spawned (git (if True then [''checkout'', ''-b'', ''feature''] else [''checkout'', ''feature'']) None)])
   \<and> commitPath (sample_env ''https://dev.azure.com/contoso/shop/_git/cart'' [''add''] None) ''feature'' [''cart/'', ''bedrock.yaml''] fresh =
      (Inl (Error (''Unable to commit changes in '' @ join '','' [''cart/'', ''bedrock.yaml'']
        @ '' to git branch '' @ ''feature'' @ '': '' @ (''fatal: git '' @ join '' '' [''add''] @ '' failed''))),
       fresh @ [Spawned (git (''add'' # [''cart/'', ''bedrock.yaml'']) None)])
   \<and> commitPath (sample_env ''https://dev.azure.com/contoso/shop/_git/cart'' [''commit''] None) ''feature'' [''cart/'', ''bedrock.yaml''] fresh =
      (Inl (Error (''Unable to commit changes in '' @ join '','' [''cart/'', ''bedrock.yaml'']
        @ '' to git branch '' @ ''feature'' @ '': '' @ (''fatal: git '' @ join '' '' [''commit''] @ '' failed''))),
       fresh @ [Spawned (git (''add'' # [''cart/'', ''bedrock.yaml'']) None), Spawned (git [''commit'', ''-m'', ''Adding new service: '' @ ''feature''] None)])
   \<and> pushBranch (sample_env ''https://dev.azure.com/contoso/shop/_git/cart'' [''push''] None) ''feature'' fresh =
      (Inl (Error (''Unable to push git branch '' @ ''feature'' @ '': '' @ (''fatal: git '' @ join '' '' [''push''] @ '' failed''))),
       fresh @ [Spawned (git [''push'', ''-u'', ''origin'', ''feature''] None)])
   \<and> getOriginUrl (sample_env ''https://dev.azure.com/contoso/shop/_git/cart'' [''config''] None) None fresh =
      (Inl (Error (''Unable to get git origin URL: '' @ (''fatal: git '' @ join '' '' [''config''] @ '' failed''))),
       fresh @ [Spawned (git [''config'', ''--get'', ''remote.origin.url''] (Some (case None of None \<Rightarrow> ''.'' | Some dir \<Rightarrow> dir)))])
   \<and> checkoutCommitPushCreatePRLink (sample_env ''https://dev.azure.com/contoso/shop/_git/cart'' [''branch'', ''--show-current''] None) ''feature'' [''cart/'', ''bedrock.yaml''] fresh =
      rethrown
        (Error (''Cannot fetch current branch. Changes will have to be manually committed. ''
          @ ''Error: Unable to parse current branch from git client. Ensure '' @ sq
          @ ''git branch --show-current'' @ sq @ '' returns a proper response''))
        (fresh @ [Spawned (plan (sample_env ''https://dev.azure.com/contoso/shop/_git/cart'' [''branch'', ''--show-current''] None) ''master'' ''feature'' [''cart/'', ''bedrock.yaml''] ! 0), Logged Err (''fatal: git '' @ join '' '' [''branch'', ''--show-current''] @ '' failed'')])
   \<and> checkoutCommitPushCreatePRLink (sample_env ''https://dev.azure.com/contoso/shop/_git/cart'' [''checkout'', ''-b''] None) ''feature'' [''cart/'', ''bedrock.yaml''] fresh =
      rethrown
        (Error (''Cannot create and checkout new branch '' @ ''feature'' @ ''. Changes will have to be manually committed. ''
          @ ''Error: Unable to checkout git branch '' @ ''feature'' @ '': '' @ (''fatal: git '' @ join '' '' [''checkout'', ''-b''] @ '' failed'')))
        (fresh @ map Spawned (take 2 (plan (sample_env ''https://dev.azure.com/contoso/shop/_git/cart'' [''checkout'', ''-b''] None) ''master'' ''feature'' [''cart/'', ''bedrock.yaml''])))
   \<and> checkoutCommitPushCreatePRLink (sample_env ''https://dev.azure.com/contoso/shop/_git/cart'' [''add''] None) ''feature'' [''cart/'', ''bedrock.yaml''] fresh =
      rethrown
        (Error (''Cannot commit changes in '' @ join '', '' [''cart/'', ''bedrock.yaml''] @ '' to branch '' @ ''feature'' @ ''. Changes will have to be manually committed. ''
          @ ''Error: Unable to commit changes in '' @ join '','' [''cart/'', ''bedrock.yaml''] @ '' to git branch '' @ ''feature'' @ '': '' @ (''fatal: git '' @ join '' '' [''add''] @ '' failed'')))
        (fresh @ map Spawned (take 3 (plan (sample_env ''https://dev.azure.com/contoso/shop/_git/cart'' [''add''] None) ''master'' ''feature'' [''cart/'', ''bedrock.yaml''])))
   \<and> checkoutCommitPushCreatePRLink (sample_env ''https://dev.azure.com/contoso/shop/_git/cart'' [''commit''] None) ''feature'' [''cart/'', ''bedrock.yaml''] fresh =
      rethrown
        (Error (''Cannot commit changes in '' @ join '', '' [''cart/'', ''bedrock.yaml''] @ '' to branch '' @ ''feature'' @ ''. Changes will have to be manually committed. ''
          @ ''Error: Unable to commit changes in '' @ join '','' [''cart/'', ''bedrock.yaml''] @ '' to git branch '' @ ''feature'' @ '': '' @ (''fatal: git '' @ join '' '' [''commit''] @ '' failed'')))
        (fresh @ map Spawned (take 4 (plan (sample_env ''https://dev.azure.com/contoso/shop/_git/cart'' [''commit''] None) ''master'' ''feature'' [''cart/'', ''bedrock.yaml''])))
   \<and> checkoutCommitPushCreatePRLink (sample_env ''https://dev.azure.com/contoso/shop/_git/cart'' [''push''] None) ''feature'' [''cart/'', ''bedrock.yaml''] fresh =
      rethrown
        (Error (''Cannot push branch '' @ ''feature'' @ ''. Changes will have to be manually committed. ''
          @ ''Error: Unable to push git branch '' @ ''feature'' @ '': '' @ (''fatal: git '' @ join '' '' [''push''] @ '' failed'')))
        (fresh @ map Spawned (take 5 (plan (sample_env ''https://dev.azure.com/contoso/shop/_git/cart'' [''push''] None) ''master'' ''feature'' [''cart/'', ''bedrock.yaml''])))
   \<and> checkoutCommitPushCreatePRLink (sample_env ''git://contoso.visualstudio.com/shop/_git/cart'' [] None) ''feature'' [''cart/'', ''bedrock.yaml''] fresh =
      rethrown
        (Error (''Could not create link for Pull Request. It will need to be done manually. ''
          @ toString (Error (dq @ ''Could not determine git provider, or it is not a supported type.'' @ dq @ '': '' @ toString (invalid_protocol ''git://contoso.visualstudio.com/shop/_git/cart'' ''git'')))))
        (fresh @ map Spawned (take 6 (plan (sample_env ''git://contoso.visualstudio.com/shop/_git/cart'' [] None) ''master'' ''feature'' [''cart/'', ''bedrock.yaml''])) @ [Logged Debug (''Got git origin url '' @ ''git://contoso.visualstudio.com/shop/_git/cart'')] @ link_lines (sample_env ''git://contoso.visualstudio.com/shop/_git/cart'' [] None) ''git://contoso.visualstudio.com/shop/_git/cart'')
   \<and> checkoutCommitPushCreatePRLink (sample_env ''https://dev.azure.com/contoso/shop/_git/cart'' [''checkout'', ''master''] None) ''feature'' [''cart/'', ''bedrock.yaml''] fresh =
      rethrown
        (Error (''Cannot checkout original branch '' @ ''master''
          @ ''. Clean up will need to be done manually. ''
          @ ''Error: Unable to checkout git branch '' @ ''master'' @ '': '' @ (''fatal: git '' @ join '' '' [''checkout'', ''master''] @ '' failed'')))
        (fresh @ map Spawned (take 6 (plan (sample_env ''https://dev.azure.com/contoso/shop/_git/cart'' [''checkout'', ''master''] None) ''master'' ''feature'' [''cart/'', ''bedrock.yaml''])) @ [Logged Debug (''Got git origin url '' @ ''https://dev.azure.com/contoso/shop/_git/cart'')] @ link_lines (sample_env ''https://dev.azure.com/contoso/shop/_git/cart'' [''checkout'', ''master''] None) ''https://dev.azure.com/contoso/shop/_git/cart''
         @ [Logged Info (''Link to create PR: '' @ (''https://dev.azure.com/contoso/shop/_git/cart'' @ ''/pullrequestcreate?sourceRef=feature&targetRef=master'')), Spawned (plan (sample_env ''https://dev.azure.com/contoso/shop/_git/cart'' [''checkout'', ''master''] None) ''master'' ''feature'' [''cart/'', ''bedrock.yaml''] ! 6)])
   \<and> checkoutCommitPushCreatePRLink (sample_env ''https://dev.azure.com/contoso/shop/_git/cart'' [''branch'', ''-D''] None) ''feature'' [''cart/'', ''bedrock.yaml''] fresh =
      rethrown
        (Error (''Cannot delete new branch '' @ ''feature''
          @ ''. Cleanup will need to be done manually. ''
          @ ''Error: Unable to delete git branch '' @ ''feature'' @ '': '' @ (''fatal: git '' @ join '' '' [''branch'', ''-D''] @ '' failed'')))
        (fresh @ map Spawned (take 6 (plan (sample_env ''https://dev.azure.com/contoso/shop/_git/cart'' [''branch'', ''-D''] None) ''master'' ''feature'' [''cart/'', ''bedrock.yaml''])) @ [Logged Debug (''Got git origin url '' @ ''https://dev.azure.com/contoso/shop/_git/cart'')] @ link_lines (sample_env ''https://dev.azure.com/contoso/shop/_git/cart'' [''branch'', ''-D''] None) ''https://dev.azure.com/contoso/shop/_git/cart''
         @ [Logged Info (''Link to create PR: '' @ (''https://dev.azure.com/contoso/shop/_git/cart'' @ ''/pullrequestcreate?sourceRef=feature&targetRef=master'')), Spawned (plan (sample_env ''https://dev.azure.com/contoso/shop/_git/cart'' [''branch'', ''-D''] None) ''master'' ''feature'' [''cart/'', ''bedrock.yaml''] ! 6),
            Spawned (plan (sample_env ''https://dev.azure.com/contoso/shop/_git/cart'' [''branch'', ''-D''] None) ''master'' ''feature'' [''cart/'', ''bedrock.yaml''] ! 7)])"
proof -
  have h_cb: "shell (sample_env ''https://dev.azure.com/contoso/shop/_git/cart'' [''branch''] None) (trace fresh) (git [''branch'', ''--show-current''] (Some (path_resolve (sample_env ''https://dev.azure.com/contoso/shop/_git/cart'' [''branch''] None) (case None of None \<Rightarrow> process_cwd (sample_env ''https://dev.azure.com/contoso/shop/_git/cart'' [''branch''] None) | Some dir \<Rightarrow> dir)))) = Inl (''fatal: git '' @ join '' '' [''branch''] @ '' failed'')"
    by (simp add: sample_env_sel sample_shell_def git_def plan_def fresh_def
        safeGitUrlForLogging_def sample_parse_def link_of_def getPullRequestLink_def
        pullRequestLink_body_def toLowerCase_samples)
  note c_cb = failures_are_wrapped_not_retried [THEN conjunct1, THEN mp, OF h_cb]
  have h_co: "shell (sample_env ''https://dev.azure.com/contoso/shop/_git/cart'' [''checkout''] None) (trace fresh) (git (if True then [''checkout'', ''-b'', ''feature''] else [''checkout'', ''feature'']) None) = Inl (''fatal: git '' @ join '' '' [''checkout''] @ '' failed'')"
    by (simp add: sample_env_sel sample_shell_def git_def plan_def fresh_def
        safeGitUrlForLogging_def sample_parse_def link_of_def getPullRequestLink_def
        pullRequestLink_body_def toLowerCase_samples)
  note c_co = failures_are_wrapped_not_retried [THEN conjunct2, THEN conjunct1, THEN mp, OF h_co]
  have h_ad: "shell (sample_env ''https://dev.azure.com/contoso/shop/_git/cart'' [''add''] None) (trace fresh) (git (''add'' # [''cart/'', ''bedrock.yaml'']) None) = Inl (''fatal: git '' @ join '' '' [''add''] @ '' failed'')"
    by (simp add: sample_env_sel sample_shell_def git_def plan_def fresh_def
        safeGitUrlForLogging_def sample_parse_def link_of_def getPullRequestLink_def
        pullRequestLink_body_def toLowerCase_samples)
  note c_ad = failures_are_wrapped_not_retried [THEN conjunct2, THEN conjunct2, THEN conjunct1, THEN mp, OF h_ad]
  have h_cm: "shell (sample_env ''https://dev.azure.com/contoso/shop/_git/cart'' [''commit''] None) (trace fresh) (git (''add'' # [''cart/'', ''bedrock.yaml'']) None) = Inr []
                \<and> shell (sample_env ''https://dev.azure.com/contoso/shop/_git/cart'' [''commit''] None) (trace fresh @ [git (''add'' # [''cart/'', ''bedrock.yaml'']) None]) (git [''commit'', ''-m'', ''Adding new service: '' @ ''feature''] None) = Inl (''fatal: git '' @ join '' '' [''commit''] @ '' failed'')"
    by (simp add: sample_env_sel sample_shell_def git_def plan_def fresh_def
        safeGitUrlForLogging_def sample_parse_def link_of_def getPullRequestLink_def
        pullRequestLink_body_def toLowerCase_samples)
  note c_cm = failures_are_wrapped_not_retried [THEN conjunct2, THEN conjunct2, THEN conjunct2, THEN conjunct1, THEN mp, OF h_cm]
  have h_pu: "shell (sample_env ''https://dev.azure.com/contoso/shop/_git/cart'' [''push''] None) (trace fresh) (git [''push'', ''-u'', ''origin'', ''feature''] None) = Inl (''fatal: git '' @ join '' '' [''push''] @ '' failed'')"
    by (simp add: sample_env_sel sample_shell_def git_def plan_def fresh_def
        safeGitUrlForLogging_def sample_parse_def link_of_def getPullRequestLink_def
        pullRequestLink_body_def toLowerCase_samples)
  note c_pu = failures_are_wrapped_not_retried [THEN conjunct2, THEN conjunct2, THEN conjunct2, THEN conjunct2, THEN conjunct1, THEN mp, OF h_pu]
  have h_go: "shell (sample_env ''https://dev.azure.com/contoso/shop/_git/cart'' [''config''] None) (trace fresh) (git [''config'', ''--get'', ''remote.origin.url''] (Some (case None of None \<Rightarrow> ''.'' | Some dir \<Rightarrow> dir))) = Inl (''fatal: git '' @ join '' '' [''config''] @ '' failed'')"
    by (simp add: sample_env_sel sample_shell_def git_def plan_def fresh_def
        safeGitUrlForLogging_def sample_parse_def link_of_def getPullRequestLink_def
        pullRequestLink_body_def toLowerCase_samples)
  note c_go = failures_are_wrapped_not_retried [THEN conjunct2, THEN conjunct2, THEN conjunct2, THEN conjunct2, THEN conjunct2, THEN conjunct1, THEN mp, OF h_go]
  have h_s0: "shell (sample_env ''https://dev.azure.com/contoso/shop/_git/cart'' [''branch'', ''--show-current''] None) (trace fresh) (plan (sample_env ''https://dev.azure.com/contoso/shop/_git/cart'' [''branch'', ''--show-current''] None) ''master'' ''feature'' [''cart/'', ''bedrock.yaml''] ! 0) = Inl (''fatal: git '' @ join '' '' [''branch'', ''--show-current''] @ '' failed'')"
    by (simp add: sample_env_sel sample_shell_def git_def plan_def fresh_def
        safeGitUrlForLogging_def sample_parse_def link_of_def getPullRequestLink_def
        pullRequestLink_body_def toLowerCase_samples)
  note c_s0 = failures_are_wrapped_not_retried [THEN conjunct2, THEN conjunct2, THEN conjunct2, THEN conjunct2, THEN conjunct2, THEN conjunct2, THEN conjunct1, THEN mp, OF h_s0]
  have h_s1: "accepts (sample_env ''https://dev.azure.com/contoso/shop/_git/cart'' [''checkout'', ''-b''] None) (trace fresh) (take 1 (plan (sample_env ''https://dev.azure.com/contoso/shop/_git/cart'' [''checkout'', ''-b''] None) ''master'' ''feature'' [''cart/'', ''bedrock.yaml''])) [''master'']
                \<and> shell (sample_env ''https://dev.azure.com/contoso/shop/_git/cart'' [''checkout'', ''-b''] None) (trace fresh @ take 1 (plan (sample_env ''https://dev.azure.com/contoso/shop/_git/cart'' [''checkout'', ''-b''] None) ''master'' ''feature'' [''cart/'', ''bedrock.yaml''])) (plan (sample_env ''https://dev.azure.com/contoso/shop/_git/cart'' [''checkout'', ''-b''] None) ''master'' ''feature'' [''cart/'', ''bedrock.yaml''] ! 1) = Inl (''fatal: git '' @ join '' '' [''checkout'', ''-b''] @ '' failed'')"
    by (simp add: sample_env_sel sample_shell_def git_def plan_def fresh_def
        safeGitUrlForLogging_def sample_parse_def link_of_def getPullRequestLink_def
        pullRequestLink_body_def toLowerCase_samples)
  note c_s1 = failures_are_wrapped_not_retried [THEN conjunct2, THEN conjunct2, THEN conjunct2, THEN conjunct2, THEN conjunct2, THEN conjunct2, THEN conjunct2, THEN conjunct1, THEN mp, OF h_s1]
  have h_s2: "accepts (sample_env ''https://dev.azure.com/contoso/shop/_git/cart'' [''add''] None) (trace fresh) (take 2 (plan (sample_env ''https://dev.azure.com/contoso/shop/_git/cart'' [''add''] None) ''master'' ''feature'' [''cart/'', ''bedrock.yaml''])) [''master'', []]
                \<and> shell (sample_env ''https://dev.azure.com/contoso/shop/_git/cart'' [''add''] None) (trace fresh @ take 2 (plan (sample_env ''https://dev.azure.com/contoso/shop/_git/cart'' [''add''] None) ''master'' ''feature'' [''cart/'', ''bedrock.yaml''])) (plan (sample_env ''https://dev.azure.com/contoso/shop/_git/cart'' [''add''] None) ''master'' ''feature'' [''cart/'', ''bedrock.yaml''] ! 2) = Inl (''fatal: git '' @ join '' '' [''add''] @ '' failed'')"
    by (simp add: sample_env_sel sample_shell_def git_def plan_def fresh_def
        safeGitUrlForLogging_def sample_parse_def link_of_def getPullRequestLink_def
        pullRequestLink_body_def toLowerCase_samples)
  note c_s2 = failures_are_wrapped_not_retried [THEN conjunct2, THEN conjunct2, THEN conjunct2, THEN conjunct2, THEN conjunct2, THEN conjunct2, THEN conjunct2, THEN conjunct2, THEN conjunct1, THEN mp, OF h_s2]
  have h_s3: "accepts (sample_env ''https://dev.azure.com/contoso/shop/_git/cart'' [''commit''] None) (trace fresh) (take 3 (plan (sample_env ''https://dev.azure.com/contoso/shop/_git/cart'' [''commit''] None) ''master'' ''feature'' [''cart/'', ''bedrock.yaml''])) [''master'', [], []]
                \<and> shell (sample_env ''https://dev.azure.com/contoso/shop/_git/cart'' [''commit''] None) (trace fresh @ take 3 (plan (sample_env ''https://dev.azure.com/contoso/shop/_git/cart'' [''commit''] None) ''master'' ''feature'' [''cart/'', ''bedrock.yaml''])) (plan (sample_env ''https://dev.azure.com/contoso/shop/_git/cart'' [''commit''] None) ''master'' ''feature'' [''cart/'', ''bedrock.yaml''] ! 3) = Inl (''fatal: git '' @ join '' '' [''commit''] @ '' failed'')"
    by (simp add: sample_env_sel sample_shell_def git_def plan_def fresh_def
        safeGitUrlForLogging_def sample_parse_def link_of_def getPullRequestLink_def
        pullRequestLink_body_def toLowerCase_samples)
  note c_s3 = failures_are_wrapped_not_retried [THEN conjunct2, THEN conjunct2, THEN conjunct2, THEN conjunct2, THEN conjunct2, THEN conjunct2, THEN conjunct2, THEN conjunct2, THEN conjunct2, THEN conjunct1, THEN mp, OF h_s3]
  have h_s4: "accepts (sample_env ''https://dev.azure.com/contoso/shop/_git/cart'' [''push''] None) (trace fresh) (take 4 (plan (sample_env ''https://dev.azure.com/contoso/shop/_git/cart'' [''push''] None) ''master'' ''feature'' [''cart/'', ''bedrock.yaml''])) [''master'', [], [], []]
                \<and> shell (sample_env ''https://dev.azure.com/contoso/shop/_git/cart'' [''push''] None) (trace fresh @ take 4 (plan (sample_env ''https://dev.azure.com/contoso/shop/_git/cart'' [''push''] None) ''master'' ''feature'' [''cart/'', ''bedrock.yaml''])) (plan (sample_env ''https://dev.azure.com/contoso/shop/_git/cart'' [''push''] None) ''master'' ''feature'' [''cart/'', ''bedrock.yaml''] ! 4) = Inl (''fatal: git '' @ join '' '' [''push''] @ '' failed'')"
    by (simp add: sample_env_sel sample_shell_def git_def plan_def fresh_def
        safeGitUrlForLogging_def sample_parse_def link_of_def getPullRequestLink_def
        pullRequestLink_body_def toLowerCase_samples)
  note c_s4 = failures_are_wrapped_not_retried [THEN conjunct2, THEN conjunct2, THEN conjunct2, THEN conjunct2, THEN conjunct2, THEN conjunct2, THEN conjunct2, THEN conjunct2, THEN conjunct2, THEN conjunct2, THEN conjunct1, THEN mp, OF h_s4]
  have h_sl: "accepts (sample_env ''git://contoso.visualstudio.com/shop/_git/cart'' [] None) (trace fresh) (take 6 (plan (sample_env ''git://contoso.visualstudio.com/shop/_git/cart'' [] None) ''master'' ''feature'' [''cart/'', ''bedrock.yaml''])) [''master'', [], [], [], [], ''git://contoso.visualstudio.com/shop/_git/cart'']
                \<and> safeGitUrlForLogging (sample_env ''git://contoso.visualstudio.com/shop/_git/cart'' [] None) ''git://contoso.visualstudio.com/shop/_git/cart'' = Inr ''git://contoso.visualstudio.com/shop/_git/cart''
                \<and> link_of (sample_env ''git://contoso.visualstudio.com/shop/_git/cart'' [] None) ''master'' ''feature'' ''git://contoso.visualstudio.com/shop/_git/cart'' = Inl (Error (dq @ ''Could not determine git provider, or it is not a supported type.'' @ dq @ '': '' @ toString (invalid_protocol ''git://contoso.visualstudio.com/shop/_git/cart'' ''git'')))"
    by (simp add: sample_env_sel sample_shell_def git_def plan_def fresh_def
        safeGitUrlForLogging_def sample_parse_def link_of_def getPullRequestLink_def
        pullRequestLink_body_def toLowerCase_samples)
  note c_sl = failures_are_wrapped_not_retried [THEN conjunct2, THEN conjunct2, THEN conjunct2, THEN conjunct2, THEN conjunct2, THEN conjunct2, THEN conjunct2, THEN conjunct2, THEN conjunct2, THEN conjunct2, THEN conjunct2, THEN conjunct1, THEN mp, OF h_sl]
  have h_s6: "accepts (sample_env ''https://dev.azure.com/contoso/shop/_git/cart'' [''checkout'', ''master''] None) (trace fresh) (take 6 (plan (sample_env ''https://dev.azure.com/contoso/shop/_git/cart'' [''checkout'', ''master''] None) ''master'' ''feature'' [''cart/'', ''bedrock.yaml''])) [''master'', [], [], [], [], ''https://dev.azure.com/contoso/shop/_git/cart'']
                \<and> safeGitUrlForLogging (sample_env ''https://dev.azure.com/contoso/shop/_git/cart'' [''checkout'', ''master''] None) ''https://dev.azure.com/contoso/shop/_git/cart'' = Inr ''https://dev.azure.com/contoso/shop/_git/cart''
                \<and> link_of (sample_env ''https://dev.azure.com/contoso/shop/_git/cart'' [''checkout'', ''master''] None) ''master'' ''feature'' ''https://dev.azure.com/contoso/shop/_git/cart'' = Inr (''https://dev.azure.com/contoso/shop/_git/cart'' @ ''/pullrequestcreate?sourceRef=feature&targetRef=master'')
                \<and> shell (sample_env ''https://dev.azure.com/contoso/shop/_git/cart'' [''checkout'', ''master''] None) (trace fresh @ take 6 (plan (sample_env ''https://dev.azure.com/contoso/shop/_git/cart'' [''checkout'', ''master''] None) ''master'' ''feature'' [''cart/'', ''bedrock.yaml''])) (plan (sample_env ''https://dev.azure.com/contoso/shop/_git/cart'' [''checkout'', ''master''] None) ''master'' ''feature'' [''cart/'', ''bedrock.yaml''] ! 6) = Inl (''fatal: git '' @ join '' '' [''checkout'', ''master''] @ '' failed'')"
    by (simp add: sample_env_sel sample_shell_def git_def plan_def fresh_def
        safeGitUrlForLogging_def sample_parse_def link_of_def getPullRequestLink_def
        pullRequestLink_body_def toLowerCase_samples)
  note c_s6 = failures_are_wrapped_not_retried [THEN conjunct2, THEN conjunct2, THEN conjunct2, THEN conjunct2, THEN conjunct2, THEN conjunct2, THEN conjunct2, THEN conjunct2, THEN conjunct2, THEN conjunct2, THEN conjunct2, THEN conjunct2, THEN conjunct1, THEN mp, OF h_s6]
  have h_s7: "accepts (sample_env ''https://dev.azure.com/contoso/shop/_git/cart'' [''branch'', ''-D''] None) (trace fresh) (take 6 (plan (sample_env ''https://dev.azure.com/contoso/shop/_git/cart'' [''branch'', ''-D''] None) ''master'' ''feature'' [''cart/'', ''bedrock.yaml''])) [''master'', [], [], [], [], ''https://dev.azure.com/contoso/shop/_git/cart'']
                \<and> safeGitUrlForLogging (sample_env ''https://dev.azure.com/contoso/shop/_git/cart'' [''branch'', ''-D''] None) ''https://dev.azure.com/contoso/shop/_git/cart'' = Inr ''https://dev.azure.com/contoso/shop/_git/cart''
                \<and> link_of (sample_env ''https://dev.azure.com/contoso/shop/_git/cart'' [''branch'', ''-D''] None) ''master'' ''feature'' ''https://dev.azure.com/contoso/shop/_git/cart'' = Inr (''https://dev.azure.com/contoso/shop/_git/cart'' @ ''/pullrequestcreate?sourceRef=feature&targetRef=master'')
                \<and> shell (sample_env ''https://dev.azure.com/contoso/shop/_git/cart'' [''branch'', ''-D''] None) (trace fresh @ take 6 (plan (sample_env ''https://dev.azure.com/contoso/shop/_git/cart'' [''branch'', ''-D''] None) ''master'' ''feature'' [''cart/'', ''bedrock.yaml''])) (plan (sample_env ''https://dev.azure.com/contoso/shop/_git/cart'' [''branch'', ''-D''] None) ''master'' ''feature'' [''cart/'', ''bedrock.yaml''] ! 6) = Inr []
                \<and> shell (sample_env ''https://dev.azure.com/contoso/shop/_git/cart'' [''branch'', ''-D''] None) (trace fresh @ take 7 (plan (sample_env ''https://dev.azure.com/contoso/shop/_git/cart'' [''branch'', ''-D''] None) ''master'' ''feature'' [''cart/'', ''bedrock.yaml''])) (plan (sample_env ''https://dev.azure.com/contoso/shop/_git/cart'' [''branch'', ''-D''] None) ''master'' ''feature'' [''cart/'', ''bedrock.yaml''] ! 7) = Inl (''fatal: git '' @ join '' '' [''branch'', ''-D''] @ '' failed'')"
    by (simp add: sample_env_sel sample_shell_def git_def plan_def fresh_def
        safeGitUrlForLogging_def sample_parse_def link_of_def getPullRequestLink_def
        pullRequestLink_body_def toLowerCase_samples)
  note c_s7 = failures_are_wrapped_not_retried [THEN conjunct2, THEN conjunct2, THEN conjunct2, THEN conjunct2, THEN conjunct2, THEN conjunct2, THEN conjunct2, THEN conjunct2, THEN conjunct2, THEN conjunct2, THEN conjunct2, THEN conjunct2, THEN conjunct2, THEN mp, OF h_s7]
  show ?thesis
    by (intro conjI) (rule c_cb c_co c_ad c_cm c_pu c_go c_s0 c_s1 c_s2 c_s3 c_s4 c_sl c_s6 c_s7)+
qed

section \<open>The name validators: statements\<close>

text \<open>The expectations of \<open>onboard.test.ts\<close> hold of the two validators.\<close>

lemma validateTableName_tests:
  "validateTableName ''deployment''"
  "\<not> validateTableName ''21deployment''"
  "\<not> validateTableName
       ''AAAAAAAAAAAAAAAAAAAAAAAAAAAAAAAAAAAAAAAAAAAAAAAAAaaaaaaaaaaaaaaa''"
  "\<not> validateTableName ''deployment$@''"
  by (simp_all add: validateTableName_def lower_letters_def upper_letters_def digits_def)

lemma validateStorageName_tests:
  "validateStorageName ''teststorage''"
  "validateStorageName ''12teststorage''"
  "\<not> validateStorageName ''teststoragE''"
  "\<not> validateStorageName ''test-storage''"
  "validateStorageName ''aaaaaaaaaaaaaaaaaaaaaaaa''"
  "\<not> validateStorageName ''aaaaaaaaaaaaaaaaaaaaaaaaa''"
  by (simp_all add: validateStorageName_def lower_letters_def digits_def)

lemma hyphen_not_alnum: "CHR ''-'' \<notin> set (lower_letters @ upper_letters @ digits)"
  by (simp add: lower_letters_def upper_letters_def digits_def)

lemma upper_not_lower: "c \<in> set upper_letters \<Longrightarrow> c \<notin> set (lower_letters @ digits)"
  by (auto simp add: lower_letters_def upper_letters_def digits_def)

lemma digit_not_letter: "c \<in> set digits \<Longrightarrow> c \<notin> set (lower_letters @ upper_letters)"
  by (auto simp add: lower_letters_def upper_letters_def digits_def)

text \<open>
  C9. Both validators are functions of the name alone. \<open>validateStorageName\<close> accepts
  exactly the names of at most 24 characters made of lower-case letters and digits, so it
  rejects every name with an upper-case letter or a hyphen and every name longer than
  24. \<open>validateTableName\<close> accepts exactly the names of at most 63 characters made of
  letters and digits whose first character is a letter, so it rejects every name with a
  leading digit or a hyphen and every name longer than 63.
\<close>

theorem name_rules:
  "(validateStorageName nm \<longleftrightarrow>
      length nm \<le> 24 \<and> set nm \<subseteq> set lower_letters \<union> set digits)
   \<and> (validateTableName nm \<longleftrightarrow>
      length nm \<le> 63
      \<and> set nm \<subseteq> set lower_letters \<union> set upper_letters \<union> set digits
      \<and> (\<exists>c cs. nm = c # cs \<and> c \<in> set lower_letters \<union> set upper_letters))
   \<and> (24 < length nm \<longrightarrow> \<not> validateStorageName nm)
   \<and> (63 < length nm \<longrightarrow> \<not> validateTableName nm)
   \<and> (c \<in> set nm \<and> (c \<in> set upper_letters \<or> c = CHR ''-'') \<longrightarrow>
        \<not> validateStorageName nm)
   \<and> (CHR ''-'' \<in> set nm \<longrightarrow> \<not> validateTableName nm)
   \<and> (d \<in> set digits \<longrightarrow> \<not> validateTableName (d # nm))"
proof -
  have storage: "validateStorageName nm \<longleftrightarrow>
      length nm \<le> 24 \<and> set nm \<subseteq> set lower_letters \<union> set digits"
    by (auto simp add: validateStorageName_def list_all_iff)
  have table: "validateTableName nm \<longleftrightarrow>
      length nm \<le> 63
      \<and> set nm \<subseteq> set lower_letters \<union> set upper_letters \<union> set digits
      \<and> (\<exists>c cs. nm = c # cs \<and> c \<in> set lower_letters \<union> set upper_letters)"
    by (cases nm) (auto simp add: validateTableName_def list_all_iff)
  have long_storage: "24 < length nm \<longrightarrow> \<not> validateStorageName nm"
    by (simp add: storage)
  have long_table: "63 < length nm \<longrightarrow> \<not> validateTableName nm"
    by (simp add: table)
  have bad_storage: "c \<in> set nm \<and> (c \<in> set upper_letters \<or> c = CHR ''-'') \<longrightarrow>
        \<not> validateStorageName nm"
    using upper_not_lower [of c] hyphen_not_alnum by (auto simp add: storage)
  have bad_table: "CHR ''-'' \<in> set nm \<longrightarrow> \<not> validateTableName nm"
    using hyphen_not_alnum by (auto simp add: table)
  have digit_table: "d \<in> set digits \<longrightarrow> \<not> validateTableName (d # nm)"
    using digit_not_letter [of d] by (simp add: validateTableName_def)
  from storage table long_storage long_table bad_storage bad_table digit_table
  show ?thesis by blast
qed

theorem name_rules_witness:
  "24 < length ''aaaaaaaaaaaaaaaaaaaaaaaaa'' \<and> \<not> validateStorageName ''aaaaaaaaaaaaaaaaaaaaaaaaa''
   \<and> 63 < length ''AAAAAAAAAAAAAAAAAAAAAAAAAAAAAAAAAAAAAAAAAAAAAAAAAaaaaaaaaaaaaaaa''
   \<and> \<not> validateTableName
         ''AAAAAAAAAAAAAAAAAAAAAAAAAAAAAAAAAAAAAAAAAAAAAAAAAaaaaaaaaaaaaaaa''
   \<and> CHR ''E'' \<in> set ''teststoragE'' \<and> CHR ''E'' \<in> set upper_letters
   \<and> \<not> validateStorageName ''teststoragE''
   \<and> CHR ''-'' \<in> set ''test-storage'' \<and> \<not> validateStorageName ''test-storage''
   \<and> \<not> validateTableName ''test-storage''
   \<and> CHR ''2'' \<in> set digits \<and> \<not> validateTableName ''21deployment''
   \<and> validateStorageName ''teststorage'' \<and> validateTableName ''deployment''"
proof -
  have long: "24 < length ''aaaaaaaaaaaaaaaaaaaaaaaaa''" by simp
  have long': "63 < length ''AAAAAAAAAAAAAAAAAAAAAAAAAAAAAAAAAAAAAAAAAAAAAAAAAaaaaaaaaaaaaaaa''"
    by simp
  have up: "CHR ''E'' \<in> set ''teststoragE''
              \<and> (CHR ''E'' \<in> set upper_letters \<or> CHR ''E'' = CHR ''-'')"
    by (simp add: upper_letters_def)
  have hy: "CHR ''-'' \<in> set ''test-storage''
              \<and> (CHR ''-'' \<in> set upper_letters \<or> CHR ''-'' = CHR ''-'')"
    and hy': "CHR ''-'' \<in> set ''test-storage''"
    by simp_all
  have dg: "CHR ''2'' \<in> set digits" by (simp add: digits_def)
  note r = name_rules [THEN conjunct2, THEN conjunct2]
  have w1: "\<not> validateStorageName ''aaaaaaaaaaaaaaaaaaaaaaaaa''"
    by (rule r [THEN conjunct1, THEN mp, OF long])
  have w1': "\<not> validateTableName
               ''AAAAAAAAAAAAAAAAAAAAAAAAAAAAAAAAAAAAAAAAAAAAAAAAAaaaaaaaaaaaaaaa''"
    by (rule r [THEN conjunct2, THEN conjunct1, THEN mp, OF long'])
  have w2: "\<not> validateStorageName ''teststoragE''"
    by (rule r [THEN conjunct2, THEN conjunct2, THEN conjunct1, THEN mp, OF up])
  have w3: "\<not> validateStorageName ''test-storage''"
    by (rule r [THEN conjunct2, THEN conjunct2, THEN conjunct1, THEN mp, OF hy])
  have w4: "\<not> validateTableName ''test-storage''"
    by (rule r [THEN conjunct2, THEN conjunct2, THEN conjunct2, THEN conjunct1, THEN mp, OF hy'])
  have w5: "\<not> validateTableName ''21deployment''"
    by (rule r [THEN conjunct2, THEN conjunct2, THEN conjunct2, THEN conjunct2, THEN mp, OF dg])
  have w6: "validateStorageName ''teststorage''"
    by (simp add: name_rules [THEN conjunct1] lower_letters_def digits_def)
  have w7: "validateTableName ''deployment''"
    by (simp add: name_rules [THEN conjunct2, THEN conjunct1] lower_letters_def
        upper_letters_def digits_def)
  from long long' up hy' dg w1 w1' w2 w3 w4 w5 w6 w7 show ?thesis by simp
qed

end
